theory Spec2Isabelle
  imports Main
begin

section \<open>Recording pipeline of server.js\<close>

text \<open>
  The theory embeds the recording pipeline of \<^verbatim>\<open>server.js\<close>:
  \<^verbatim>\<open>startRecordingForProducer\<close>, its ffmpeg exit handler,
  \<^verbatim>\<open>convertOggToMp3\<close>, \<^verbatim>\<open>stopRecordingForProducer\<close> and the
  \<^verbatim>\<open>/producers\<close> listing.

  The objects the code holds by reference (mediasoup transports and consumers, child
  processes) live in lists of the state and are named by their index. The file system is a
  map from paths to file data, the registry \<^verbatim>\<open>recordings\<close> a map from producer
  ids to session records. What the outside world decides (whether an awaited mediasoup
  call resolves, what the clock shows, how a process exits) is an argument of the
  function that meets it. Every call that reaches the outside world appends an effect
  to \<open>trace\<close>, every console line is appended to \<open>console\<close>.
\<close>

subsection \<open>Configuration and data\<close>

text \<open>The constants server.js computes from the environment at load time.\<close>

record config =
  RECORD_DIR :: string
  POST_CONVERT_MP3 :: bool
  RECORD_BITRATE :: string
  KEEP_OGG :: bool

text \<open>A mediasoup producer: \<^verbatim>\<open>id\<close>, \<^verbatim>\<open>appData.peerId\<close>, \<^verbatim>\<open>kind\<close>, \<^verbatim>\<open>paused\<close>.\<close>

record producer =
  prod_id :: string
  peerId :: "string option"
  kind :: string
  paused :: bool

record transport_obj =
  tr_port :: "nat option"
  tr_closed :: bool

record consumer_obj =
  cn_producerId :: string
  cn_transport :: nat
  cn_payloadType :: nat
  cn_ssrc :: nat
  cn_paused :: bool
  cn_closed :: bool

text \<open>
  The listener a child process carries for its \<^verbatim>\<open>exit\<close> event. The recorder's
  listener closes over \<^verbatim>\<open>outFile\<close> and \<^verbatim>\<open>sdpFile\<close>. The converter's
  listener closes over \<^verbatim>\<open>oggFile\<close> and \<^verbatim>\<open>mp3File\<close>; it resolves the promise
  the recorder's listener awaits, whose continuation unlinks the descriptor, so it
  carries that \<^verbatim>\<open>sdpFile\<close> as well.
\<close>

datatype exit_listener =
    RecorderExit string string
  | ConverterExit string string string

record process_obj =
  pr_command :: string
  pr_args :: "string list"
  pr_on_exit :: exit_listener
  pr_killed :: bool
  pr_exited :: bool

text \<open>
  The value stored in \<^verbatim>\<open>recordings\<close>, with the field names of the source
  (\<open>file_out\<close> is the source's \<^verbatim>\<open>file\<close>).
\<close>

record recording =
  ffmpeg :: nat
  consumer :: nat
  transport :: nat
  file_out :: string
  sdpFile :: string

datatype fdata = Text string | Blob nat

fun st_size :: "fdata \<Rightarrow> nat" where
  "st_size (Text t) = length t"
| "st_size (Blob n) = n"

datatype effect =
    CreateTransport nat
  | ConnectTransport nat nat
  | CloseTransport nat
  | Consume nat
  | CloseConsumer nat
  | WriteFile string
  | Unlink string
  | Spawn nat
  | Sleep nat
  | Resume nat
  | Kill nat string

record state =
  plain_transports :: "transport_obj list"
  consumers :: "consumer_obj list"
  procs :: "process_obj list"
  files :: "string \<rightharpoonup> fdata"
  recordings :: "string \<rightharpoonup> recording"
  listeners :: "(string \<times> string) list"
  trace :: "effect list"
  console :: "string list"

datatype error = Thrown string

text \<open>\<^verbatim>\<open>try { ... } catch {}\<close>: a throwing block leaves the state as it was.\<close>

definition try_catch :: "(state \<Rightarrow> error + state) \<Rightarrow> state \<Rightarrow> state" where
  "try_catch f s = (case f s of Inl e \<Rightarrow> s | Inr s' \<Rightarrow> s')"

definition console_log :: "string \<Rightarrow> state \<Rightarrow> state" where
  "console_log line s = s\<lparr>console := console s @ [line]\<rparr>"

subsection \<open>Calls into mediasoup, the file system and child processes\<close>

text \<open>
  Each call takes a flag saying whether the outside world lets it succeed; a call
  that throws has no effect.
\<close>

definition transport_close :: "bool \<Rightarrow> nat \<Rightarrow> state \<Rightarrow> error + state" where
  "transport_close ok t s =
     (if ok then
        Inr (s\<lparr>plain_transports :=
                 (plain_transports s)[t := (plain_transports s ! t)\<lparr>tr_closed := True\<rparr>],
               trace := trace s @ [CloseTransport t]\<rparr>)
      else Inl (Thrown ''transport.close''))"

definition consumer_close :: "bool \<Rightarrow> nat \<Rightarrow> state \<Rightarrow> error + state" where
  "consumer_close ok c s =
     (if ok then
        Inr (s\<lparr>consumers := (consumers s)[c := (consumers s ! c)\<lparr>cn_closed := True\<rparr>],
               trace := trace s @ [CloseConsumer c]\<rparr>)
      else Inl (Thrown ''consumer.close''))"

text \<open>
  \<^verbatim>\<open>subprocess.kill(signal)\<close>: a process that has already exited receives nothing
  and its \<^verbatim>\<open>killed\<close> flag stays as it is; otherwise the signal is sent and
  \<^verbatim>\<open>killed\<close> becomes true.
\<close>

definition process_kill :: "bool \<Rightarrow> nat \<Rightarrow> string \<Rightarrow> state \<Rightarrow> error + state" where
  "process_kill ok p sig s =
     (if \<not> ok then Inl (Thrown ''kill'')
      else if pr_exited (procs s ! p) then Inr s
      else Inr (s\<lparr>procs := (procs s)[p := (procs s ! p)\<lparr>pr_killed := True\<rparr>],
                  trace := trace s @ [Kill p sig]\<rparr>))"

text \<open>
  \<^verbatim>\<open>child_process.spawn\<close> throws at once only when it is not given a usable
  call; in every other case it returns a child. A program that cannot be started
  still yields a child, which then emits \<^verbatim>\<open>error\<close> and never \<^verbatim>\<open>exit\<close>
  (see \<open>process_error\<close> below).
\<close>

definition spawn :: "bool \<Rightarrow> string \<Rightarrow> string list \<Rightarrow> exit_listener \<Rightarrow> state \<Rightarrow> error + state" where
  "spawn ok cmd args on_exit s =
     (if ok then
        Inr (s\<lparr>procs := procs s @
                 [\<lparr>pr_command = cmd, pr_args = args, pr_on_exit = on_exit,
                   pr_killed = False, pr_exited = False\<rparr>],
               trace := trace s @ [Spawn (length (procs s))]\<rparr>)
      else Inl (Thrown ''spawn''))"

definition writeFileSync :: "bool \<Rightarrow> string \<Rightarrow> string \<Rightarrow> state \<Rightarrow> error + state" where
  "writeFileSync ok path text s =
     (if ok then
        Inr (s\<lparr>files := (files s)(path \<mapsto> Text text), trace := trace s @ [WriteFile path]\<rparr>)
      else Inl (Thrown ''writeFileSync''))"

text \<open>\<^verbatim>\<open>fs.unlinkSync\<close> throws on a path that does not exist.\<close>

definition unlinkSync :: "string \<Rightarrow> state \<Rightarrow> error + state" where
  "unlinkSync path s =
     (case files s path of
        None \<Rightarrow> Inl (Thrown ''ENOENT'')
      | Some d \<Rightarrow> Inr (s\<lparr>files := (files s)(path := None), trace := trace s @ [Unlink path]\<rparr>))"

text \<open>What an external tool writes to disk while it runs.\<close>

definition tool_writes :: "string \<Rightarrow> nat \<Rightarrow> state \<Rightarrow> state" where
  "tool_writes path n s = s\<lparr>files := (files s)(path \<mapsto> Blob n)\<rparr>"

subsection \<open>Helpers\<close>

definition digit_char :: "nat \<Rightarrow> char" where
  "digit_char d = char_of (48 + d)"

fun decimal :: "nat \<Rightarrow> string" where
  "decimal n = (if n < 10 then [digit_char n] else decimal (n div 10) @ [digit_char (n mod 10)])"

declare decimal.simps [simp del]

definition join_lines :: "string list \<Rightarrow> string" where
  "join_lines ls = concat (map (\<lambda>l. l @ [CHR 0x0A]) (butlast ls)) @ (if ls = [] then [] else last ls)"

definition buildOpusSdp :: "string \<Rightarrow> nat \<Rightarrow> nat \<Rightarrow> nat \<Rightarrow> string" where
  "buildOpusSdp ip port payloadType ssrc = join_lines
     [''v=0'',
      ''o=- 0 0 IN IP4 127.0.0.1'',
      ''s=mediasoup-audio'',
      ''c=IN IP4 '' @ ip,
      ''t=0 0'',
      ''m=audio '' @ decimal port @ '' RTP/AVP '' @ decimal payloadType,
      ''a=rtpmap:'' @ decimal payloadType @ '' opus/48000/2'',
      ''a=fmtp:'' @ decimal payloadType @ '' sprop-stereo=1;stereo=1;minptime=10;useinbandfec=1'',
      ''a=rtcp-mux'',
      ''a=recvonly'',
      ''a=ssrc:'' @ decimal ssrc @ '' cname:mediasoup-audio'',
      '''']"

text \<open>\<^verbatim>\<open>path.join(dir, name)\<close> for a name without separators or dots to normalise.\<close>

definition path_join :: "string \<Rightarrow> string \<Rightarrow> string" where
  "path_join dir name = dir @ ''/'' @ name"

text \<open>\<^verbatim>\<open>oggFile.replace(/\.ogg$/i, '.mp3')\<close>.\<close>

definition ends_with_ogg :: "string \<Rightarrow> bool" where
  "ends_with_ogg f =
     (case rev f of
        c3 # c2 # c1 # c0 # rest \<Rightarrow>
          c0 = CHR ''.'' \<and> (c1 = CHR ''o'' \<or> c1 = CHR ''O'') \<and>
          (c2 = CHR ''g'' \<or> c2 = CHR ''G'') \<and> (c3 = CHR ''g'' \<or> c3 = CHR ''G'')
      | _ \<Rightarrow> False)"

definition mp3_name :: "string \<Rightarrow> string" where
  "mp3_name oggFile =
     (if ends_with_ogg oggFile then take (length oggFile - 4) oggFile @ ''.mp3'' else oggFile)"

text \<open>\<^verbatim>\<open>producer.appData?.peerId || 'unknown'\<close>: an empty string is falsy.\<close>

definition peer_label :: "producer \<Rightarrow> string" where
  "peer_label p = (case peerId p of None \<Rightarrow> ''unknown'' | Some x \<Rightarrow> if x = [] then ''unknown'' else x)"

subsection \<open>The recorder's exit handler and the post-conversion\<close>

text \<open>
  \<^verbatim>\<open>hasData\<close>: \<^verbatim>\<open>statSync\<close> throws on a missing file, which leaves the
  flag false; otherwise the file must be larger than 8192 bytes.
\<close>

definition has_data :: "state \<Rightarrow> string \<Rightarrow> bool" where
  "has_data s outFile = (case files s outFile of None \<Rightarrow> False | Some d \<Rightarrow> st_size d > 8192)"

text \<open>\<^verbatim>\<open>ok = (code === 0 || code === 255 || signal === 'SIGINT' || hasData)\<close>.\<close>

definition exit_ok :: "int option \<Rightarrow> string option \<Rightarrow> bool \<Rightarrow> bool" where
  "exit_ok code signal hasData =
     (code = Some 0 \<or> code = Some 255 \<or> signal = Some ''SIGINT'' \<or> hasData)"

definition mp3_args :: "string \<Rightarrow> string \<Rightarrow> string list" where
  "mp3_args oggFile bitrate =
     [''-hide_banner'', ''-loglevel'', ''warning'',
      ''-i'', oggFile,
      ''-vn'',
      ''-c:a'', ''libmp3lame'',
      ''-b:a'', bitrate,
      ''-ar'', ''44100'',
      ''-ac'', ''2'',
      mp3_name oggFile]"

text \<open>
  \<^verbatim>\<open>convertOggToMp3\<close> up to the point where its promise is pending: the converter is
  spawned with its exit listener. A spawn that throws rejects the promise.
\<close>

definition convertOggToMp3 :: "bool \<Rightarrow> string \<Rightarrow> string \<Rightarrow> string \<Rightarrow> state \<Rightarrow> error + state" where
  "convertOggToMp3 spawn_ok oggFile bitrate awaiting_sdp s =
     spawn spawn_ok ''ffmpeg'' (mp3_args oggFile bitrate)
       (ConverterExit oggFile (mp3_name oggFile) awaiting_sdp) s"

text \<open>
  The converter's \<^verbatim>\<open>exit\<close> listener, followed by the continuation of the recorder's
  handler that the resolved promise wakes up (the unlink of the descriptor).
\<close>

definition mp3_exit :: "config \<Rightarrow> string \<Rightarrow> string \<Rightarrow> string \<Rightarrow> int option \<Rightarrow> state \<Rightarrow> state" where
  "mp3_exit cfg oggFile mp3File awaiting_sdp code s =
     (let s0 = console_log ''[post] mp3 exit'' s;
          s1 = (if code = Some 0 \<and> \<not> KEEP_OGG cfg then try_catch (unlinkSync oggFile) s0 else s0)
      in try_catch (unlinkSync awaiting_sdp) s1)"

text \<open>
  The recorder's \<^verbatim>\<open>exit\<close> listener. Without post-conversion it runs to its end;
  with it, it stops at the await and the rest runs in \<open>mp3_exit\<close>.
\<close>

definition ffmpeg_exit ::
  "config \<Rightarrow> bool \<Rightarrow> string \<Rightarrow> string \<Rightarrow> int option \<Rightarrow> string option \<Rightarrow> state \<Rightarrow> state" where
  "ffmpeg_exit cfg conv_spawn_ok outFile sdp code signal s =
     (let s0 = console_log ''[ffmpeg] exit'' s;
          hasData = has_data s0 outFile;
          ok = exit_ok code signal hasData
      in if POST_CONVERT_MP3 cfg \<and> ok then
           (case convertOggToMp3 conv_spawn_ok outFile (RECORD_BITRATE cfg) sdp s0 of
              Inl e \<Rightarrow> try_catch (unlinkSync sdp) (console_log ''[post] mp3 convert failed'' s0)
            | Inr s1 \<Rightarrow> s1)
         else try_catch (unlinkSync sdp) s0)"

text \<open>
  A child process exits with \<open>code\<close> and \<open>signal\<close>: Node marks it and calls its
  listener. A process exits once.
\<close>

definition process_exit ::
  "config \<Rightarrow> bool \<Rightarrow> nat \<Rightarrow> int option \<Rightarrow> string option \<Rightarrow> state \<Rightarrow> state" where
  "process_exit cfg conv_spawn_ok p code signal s =
     (if p < length (procs s) \<and> \<not> pr_exited (procs s ! p) then
        (let s1 = s\<lparr>procs := (procs s)[p := (procs s ! p)\<lparr>pr_exited := True\<rparr>]\<rparr>
         in case pr_on_exit (procs s ! p) of
              RecorderExit outFile sdp \<Rightarrow> ffmpeg_exit cfg conv_spawn_ok outFile sdp code signal s1
            | ConverterExit oggFile mp3File sdp \<Rightarrow> mp3_exit cfg oggFile mp3File sdp code s1)
      else s)"



subsection \<open>Starting a recording\<close>

text \<open>
  What the outside world answers to one call of \<^verbatim>\<open>startRecordingForProducer\<close>:
  the port \<^verbatim>\<open>getFreeUdpPort\<close> resolves with (or its rejection), whether
  \<^verbatim>\<open>createPlainTransport\<close> and \<^verbatim>\<open>connect\<close> resolve, what
  \<^verbatim>\<open>canConsume\<close> returns, whether \<^verbatim>\<open>plainTransport.close()\<close> returns, the
  payload type and ssrc of the consumer \<^verbatim>\<open>consume\<close> resolves with (or its
  rejection), what \<^verbatim>\<open>ts()\<close> reads off the clock, whether \<^verbatim>\<open>writeFileSync\<close>
  and \<^verbatim>\<open>spawn\<close> return, and whether \<^verbatim>\<open>consumer.resume()\<close> resolves.
\<close>

record start_env =
  port_res :: "nat option"
  create_ok :: bool
  connect_ok :: bool
  can_consume :: bool
  close_ok :: bool
  consume_res :: "(nat \<times> nat) option"
  stamp :: string
  write_ok :: bool
  spawn_ok :: bool
  resume_ok :: bool

text \<open>
  The function is asynchronous: it runs until an \<^verbatim>\<open>await\<close>, gives the event loop
  back, and goes on when the awaited promise settles. A \<open>task\<close> is a call suspended at
  one of its awaits, with the local variables it holds there; other handlers run between
  two steps of a task.
\<close>

datatype task =
    AwaitPort producer
  | AwaitCreate producer nat
  | AwaitConnect producer nat nat
  | AwaitConsume producer nat nat
  | AwaitSettle producer recording
  | AwaitResume producer recording
  | Finished

definition record_args :: "string \<Rightarrow> string \<Rightarrow> string list" where
  "record_args sdp outFile =
     [''-hide_banner'', ''-loglevel'', ''warning'',
      ''-protocol_whitelist'', ''file,udp,rtp'',
      ''-i'', sdp,
      ''-c'', ''copy'',
      outFile]"

text \<open>The outer \<^verbatim>\<open>catch\<close>: log and return.\<close>

definition start_error :: "state \<Rightarrow> task \<times> state" where
  "start_error s = (Finished, console_log ''[record] start error'' s)"

text \<open>
  One step: the awaited promise settles as \<open>env\<close> says and the function runs to its
  next await. \<^verbatim>\<open>plainTransport.close()\<close> is synchronous, so the
  \<^verbatim>\<open>await\<close> on its result only precedes the \<^verbatim>\<open>return\<close>.
\<close>

fun start_step :: "config \<Rightarrow> start_env \<Rightarrow> task \<Rightarrow> state \<Rightarrow> task \<times> state" where
  "start_step cfg env (AwaitPort p) s =
     (case port_res env of
        None \<Rightarrow> start_error s
      | Some rtpPort \<Rightarrow> (AwaitCreate p rtpPort, s))"
| "start_step cfg env (AwaitCreate p rtpPort) s =
     (if create_ok env then
        (AwaitConnect p rtpPort (length (plain_transports s)),
         s\<lparr>plain_transports := plain_transports s @ [\<lparr>tr_port = None, tr_closed = False\<rparr>],
           trace := trace s @ [CreateTransport (length (plain_transports s))]\<rparr>)
      else start_error s)"
| "start_step cfg env (AwaitConnect p rtpPort t) s =
     (if connect_ok env then
        (let s1 = s\<lparr>plain_transports :=
                      (plain_transports s)[t := (plain_transports s ! t)\<lparr>tr_port := Some rtpPort\<rparr>],
                    trace := trace s @ [ConnectTransport t rtpPort]\<rparr>
         in if \<not> can_consume env then
              (let s2 = console_log ''[record] cannot consume producer'' s1
               in case transport_close (close_ok env) t s2 of
                    Inl e \<Rightarrow> start_error s2
                  | Inr s3 \<Rightarrow> (Finished, s3))
            else (AwaitConsume p rtpPort t, s1))
      else start_error s)"
| "start_step cfg env (AwaitConsume p rtpPort t) s =
     (case consume_res env of
        None \<Rightarrow> start_error s
      | Some (payloadType, ssrc) \<Rightarrow>
         (let c = length (consumers s);
              s1 = s\<lparr>consumers := consumers s @
                        [\<lparr>cn_producerId = prod_id p, cn_transport = t,
                          cn_payloadType = payloadType, cn_ssrc = ssrc,
                          cn_paused = True, cn_closed = False\<rparr>],
                      trace := trace s @ [Consume c]\<rparr>;
              sdpText = buildOpusSdp ''127.0.0.1'' rtpPort payloadType ssrc;
              base = stamp env @ ''_peer-'' @ peer_label p @ ''_prod-'' @ prod_id p;
              sdp = path_join (RECORD_DIR cfg) (base @ ''.sdp'');
              outFile = path_join (RECORD_DIR cfg) (base @ ''.ogg'')
          in case writeFileSync (write_ok env) sdp sdpText s1 of
               Inl e \<Rightarrow> start_error s1
             | Inr s2 \<Rightarrow>
                (case spawn (spawn_ok env) ''ffmpeg'' (record_args sdp outFile)
                        (RecorderExit outFile sdp) s2 of
                   Inl e \<Rightarrow> start_error s2
                 | Inr s3 \<Rightarrow>
                    (AwaitSettle p \<lparr>ffmpeg = length (procs s2), consumer = c, transport = t,
                                    file_out = outFile, sdpFile = sdp\<rparr>, s3))))"
| "start_step cfg env (AwaitSettle p r) s =
     (AwaitResume p r, s\<lparr>trace := trace s @ [Sleep 150, Resume (consumer r)]\<rparr>)"
| "start_step cfg env (AwaitResume p r) s =
     (if resume_ok env then
        (Finished,
         console_log ''[record] started''
           (s\<lparr>consumers := (consumers s)[consumer r := (consumers s ! consumer r)\<lparr>cn_paused := False\<rparr>],
              recordings := (recordings s)(prod_id p \<mapsto> r),
              listeners := listeners s @
                [(prod_id p, ''transportclose''), (prod_id p, ''producerclose'')]\<rparr>))
      else start_error s)"
| "start_step cfg env Finished s = (Finished, s)"

text \<open>The awaits still ahead of a task.\<close>

fun awaits_left :: "task \<Rightarrow> nat" where
  "awaits_left (AwaitPort p) = 6"
| "awaits_left (AwaitCreate p rtpPort) = 5"
| "awaits_left (AwaitConnect p rtpPort t) = 4"
| "awaits_left (AwaitConsume p rtpPort t) = 3"
| "awaits_left (AwaitSettle p r) = 2"
| "awaits_left (AwaitResume p r) = 1"
| "awaits_left Finished = 0"

text \<open>A task run to its end with nothing else in between.\<close>

function run_task :: "config \<Rightarrow> start_env \<Rightarrow> task \<Rightarrow> state \<Rightarrow> state" where
  "run_task cfg env t s =
     (if t = Finished then s
      else run_task cfg env (fst (start_step cfg env t s)) (snd (start_step cfg env t s)))"
  by pat_completeness auto
termination
proof (relation "measure (\<lambda>(cfg, env, t, s). awaits_left t)")
  show "wf (measure (\<lambda>(cfg, env, t, s). awaits_left t))"
    by simp
next
  fix cfg :: config and env :: start_env and t :: task and s :: state
  assume "t \<noteq> Finished"
  then have "awaits_left (fst (start_step cfg env t s)) < awaits_left t"
    by (cases t)
       (auto simp: start_error_def transport_close_def writeFileSync_def spawn_def Let_def
             split: option.splits sum.splits prod.splits if_splits)
  then show "((cfg, env, fst (start_step cfg env t s), snd (start_step cfg env t s)),
              (cfg, env, t, s)) \<in> measure (\<lambda>(cfg, env, t, s). awaits_left t)"
    by (simp add: case_prod_unfold)
qed

declare run_task.simps [simp del]

definition startRecordingForProducer :: "config \<Rightarrow> start_env \<Rightarrow> producer \<Rightarrow> state \<Rightarrow> state" where
  "startRecordingForProducer cfg env p s = run_task cfg env (AwaitPort p) s"

subsection \<open>Stopping a recording\<close>

record stop_env =
  consumer_close_ok :: bool
  transport_close_ok :: bool
  kill_ok :: bool

definition stopRecordingForProducer :: "stop_env \<Rightarrow> string \<Rightarrow> state \<Rightarrow> error + state" where
  "stopRecordingForProducer env producerId s =
     (case recordings s producerId of
        None \<Rightarrow> Inr s
      | Some rec \<Rightarrow>
         (let s1 = try_catch (consumer_close (consumer_close_ok env) (consumer rec)) s;
              s2 = try_catch (transport_close (transport_close_ok env) (transport rec)) s1;
              s3 = try_catch
                     (\<lambda>u. if \<not> pr_killed (procs u ! ffmpeg rec)
                          then process_kill (kill_ok env) (ffmpeg rec) ''SIGINT'' u
                          else Inr u) s2;
              s4 = s3\<lparr>recordings := (recordings s3)(producerId := None)\<rparr>
          in Inr (console_log ''[record] stopped'' s4)))"

text \<open>
  A close signal of a producer: \<^verbatim>\<open>emit\<close> calls the listeners registered for the
  event in order; each is \<^verbatim>\<open>cleanup\<close>, which stops the recording of the producer it
  was registered for. An exception of a listener would leave \<^verbatim>\<open>emit\<close>.
\<close>

fun run_listeners ::
  "stop_env \<Rightarrow> (string \<times> string) list \<Rightarrow> string \<Rightarrow> string \<Rightarrow> state \<Rightarrow> error + state" where
  "run_listeners env [] producerId event s = Inr s"
| "run_listeners env ((q, e) # ls) producerId event s =
     (if q = producerId \<and> e = event then
        (case stopRecordingForProducer env q s of
           Inl x \<Rightarrow> Inl x
         | Inr s' \<Rightarrow> run_listeners env ls producerId event s')
      else run_listeners env ls producerId event s)"

definition emit :: "stop_env \<Rightarrow> string \<Rightarrow> string \<Rightarrow> state \<Rightarrow> error + state" where
  "emit env producerId event s = run_listeners env (listeners s) producerId event s"

subsection \<open>The listing of \<^verbatim>\<open>/producers\<close>\<close>

text \<open>\<^verbatim>\<open>recordings.get(p.id)?.file || null\<close>.\<close>

definition recordingFile :: "state \<Rightarrow> string \<Rightarrow> string option" where
  "recordingFile s producerId =
     (case recordings s producerId of
        None \<Rightarrow> None
      | Some rec \<Rightarrow> if file_out rec = [] then None else Some (file_out rec))"

record listing =
  l_id :: string
  l_peerId :: "string option"
  l_kind :: string
  l_paused :: bool
  l_recordingFile :: "string option"

definition list_producers :: "producer list \<Rightarrow> state \<Rightarrow> listing list" where
  "list_producers ps s =
     map (\<lambda>p. \<lparr>l_id = prod_id p, l_peerId = peerId p, l_kind = kind p, l_paused = paused p,
               l_recordingFile = recordingFile s (prod_id p)\<rparr>) ps"

subsection \<open>The session a start call builds\<close>

text \<open>
  The value of \<^verbatim>\<open>{ ffmpeg: ff, consumer, transport: plainTransport, file: outFile, sdpFile }\<close>
  when the call for producer \<open>p\<close> consumes on transport \<open>t\<close> in state \<open>s\<close>: the consumer
  and the process are the next ones of the state, the paths are built from the clock, the
  peer and the producer id.
\<close>

definition session_of :: "config \<Rightarrow> start_env \<Rightarrow> producer \<Rightarrow> state \<Rightarrow> nat \<Rightarrow> recording" where
  "session_of cfg env p s t =
     \<lparr>ffmpeg = length (procs s), consumer = length (consumers s), transport = t,
      file_out = path_join (RECORD_DIR cfg)
        (stamp env @ ''_peer-'' @ peer_label p @ ''_prod-'' @ prod_id p @ ''.ogg''),
      sdpFile = path_join (RECORD_DIR cfg)
        (stamp env @ ''_peer-'' @ peer_label p @ ''_prod-'' @ prod_id p @ ''.sdp'')\<rparr>"

subsection \<open>Scenarios\<close>

text \<open>Concrete inputs on which the statements below are evaluated.\<close>

definition no_state :: state where
  "no_state = \<lparr>plain_transports = [], consumers = [], procs = [], files = Map.empty,
               recordings = Map.empty, listeners = [], trace = [], console = []\<rparr>"

definition cfg_mp3 :: config where
  "cfg_mp3 = \<lparr>RECORD_DIR = ''/rec'', POST_CONVERT_MP3 = True, RECORD_BITRATE = ''160k'',
              KEEP_OGG = False\<rparr>"

definition cfg_ogg :: config where
  "cfg_ogg = \<lparr>RECORD_DIR = ''/rec'', POST_CONVERT_MP3 = False, RECORD_BITRATE = ''160k'',
              KEEP_OGG = True\<rparr>"

definition env_ok :: "string \<Rightarrow> start_env" where
  "env_ok clock = \<lparr>port_res = Some 40001, create_ok = True, connect_ok = True,
                   can_consume = True, close_ok = True, consume_res = Some (100, 7),
                   stamp = clock, write_ok = True, spawn_ok = True, resume_ok = True\<rparr>"

definition stop_ok :: stop_env where
  "stop_ok = \<lparr>consumer_close_ok = True, transport_close_ok = True, kill_ok = True\<rparr>"

definition mk_producer :: "string \<Rightarrow> producer" where
  "mk_producer i = \<lparr>prod_id = i, peerId = Some ''a'', kind = ''audio'', paused = False\<rparr>"

text \<open>A state whose disk holds a raw capture of \<open>n\<close> bytes and its descriptor.\<close>

definition disk :: "string \<Rightarrow> nat \<Rightarrow> state" where
  "disk b n = no_state\<lparr>files := [b @ ''.ogg'' \<mapsto> Blob n, b @ ''.sdp'' \<mapsto> Text ''v=0'']\<rparr>"

text \<open>A state with one session that is streaming.\<close>

definition live :: state where
  "live = startRecordingForProducer cfg_ogg (env_ok ''t'') (mk_producer ''P1'') no_state"

text \<open>A start call whose capability check fails.\<close>

definition env_no_consume :: start_env where
  "env_no_consume = (env_ok ''t'')\<lparr>can_consume := False\<rparr>"

text \<open>The streaming session after a stop in which every call succeeded.\<close>

definition stopped :: state where
  "stopped = try_catch (stopRecordingForProducer stop_ok ''P1'') live"

text \<open>
  A start call for producer P1 after \<^verbatim>\<open>connect\<close> has resolved, and the state in
  which that call has spawned the recorder and waits for its timer.
\<close>

definition connected :: state where
  "connected =
     snd (start_step cfg_ogg (env_ok ''t'') (AwaitConnect (mk_producer ''P1'') 40001 0)
       (snd (start_step cfg_ogg (env_ok ''t'') (AwaitCreate (mk_producer ''P1'') 40001) no_state)))"

definition window :: state where
  "window = snd (start_step cfg_ogg (env_ok ''t'') (AwaitConsume (mk_producer ''P1'') 40001 0) connected)"



section \<open>Lemmas\<close>

lemma console_log_fields [simp]:
  "files (console_log l s) = files s"
  "procs (console_log l s) = procs s"
  "trace (console_log l s) = trace s"
  "recordings (console_log l s) = recordings s"
  "listeners (console_log l s) = listeners s"
  "consumers (console_log l s) = consumers s"
  "plain_transports (console_log l s) = plain_transports s"
  "console (console_log l s) = console s @ [l]"
  by (simp_all add: console_log_def)

lemma has_data_console_log [simp]: "has_data (console_log l s) f = has_data s f"
  by (simp add: has_data_def)

lemma files_try_unlink:
  "files (try_catch (unlinkSync path) s) = (files s)(path := None)"
  by (auto simp: try_catch_def unlinkSync_def split: option.splits)

lemma procs_try_unlink [simp]:
  "procs (try_catch (unlinkSync path) s) = procs s"
  by (auto simp: try_catch_def unlinkSync_def split: option.splits)

lemma files_mp3_exit:
  "files (mp3_exit cfg oggFile mp3File sdp code s) =
     (if code = Some 0 \<and> \<not> KEEP_OGG cfg then (files s)(oggFile := None, sdp := None)
      else (files s)(sdp := None))"
  by (simp add: mp3_exit_def Let_def files_try_unlink)

lemma ffmpeg_exit_skip:
  "\<not> (POST_CONVERT_MP3 cfg \<and> exit_ok code signal (has_data s outFile)) \<Longrightarrow>
   ffmpeg_exit cfg b outFile sdp code signal s =
     try_catch (unlinkSync sdp) (console_log ''[ffmpeg] exit'' s)"
  by (auto simp: ffmpeg_exit_def Let_def)

lemma ffmpeg_exit_convert:
  "POST_CONVERT_MP3 cfg \<Longrightarrow> exit_ok code signal (has_data s outFile) \<Longrightarrow>
   ffmpeg_exit cfg True outFile sdp code signal s =
     (console_log ''[ffmpeg] exit'' s)
       \<lparr>procs := procs s @
          [\<lparr>pr_command = ''ffmpeg'', pr_args = mp3_args outFile (RECORD_BITRATE cfg),
            pr_on_exit = ConverterExit outFile (mp3_name outFile) sdp,
            pr_killed = False, pr_exited = False\<rparr>],
        trace := trace s @ [Spawn (length (procs s))]\<rparr>"
  by (simp add: ffmpeg_exit_def Let_def convertOggToMp3_def spawn_def)


lemma mp3_name_ogg: "mp3_name (b @ ''.ogg'') = b @ ''.mp3''"
  by (simp add: mp3_name_def ends_with_ogg_def)

lemma exit_ok_sigint: "exit_ok code (Some ''SIGINT'') h"
  by (simp add: exit_ok_def)

lemma try_consumer_close:
  "try_catch (consumer_close ok c) s =
     (if ok then s\<lparr>consumers := (consumers s)[c := (consumers s ! c)\<lparr>cn_closed := True\<rparr>],
                   trace := trace s @ [CloseConsumer c]\<rparr>
      else s)"
  by (simp add: try_catch_def consumer_close_def)

lemma try_transport_close:
  "try_catch (transport_close ok t) s =
     (if ok then s\<lparr>plain_transports :=
                     (plain_transports s)[t := (plain_transports s ! t)\<lparr>tr_closed := True\<rparr>],
                   trace := trace s @ [CloseTransport t]\<rparr>
      else s)"
  by (simp add: try_catch_def transport_close_def)

lemma try_kill:
  "try_catch (\<lambda>u. if \<not> pr_killed (procs u ! p) then process_kill ok p sig u else Inr u) s =
     (if ok \<and> \<not> pr_killed (procs s ! p) \<and> \<not> pr_exited (procs s ! p)
      then s\<lparr>procs := (procs s)[p := (procs s ! p)\<lparr>pr_killed := True\<rparr>],
             trace := trace s @ [Kill p sig]\<rparr>
      else s)"
  by (simp add: try_catch_def process_kill_def)

lemma stop_absent:
  "recordings s producerId = None \<Longrightarrow> stopRecordingForProducer env producerId s = Inr s"
  by (simp add: stopRecordingForProducer_def)

lemma stop_present:
  "recordings s producerId = Some r \<Longrightarrow>
   stopRecordingForProducer env producerId s =
     Inr (console_log ''[record] stopped''
           ((try_catch (\<lambda>u. if \<not> pr_killed (procs u ! ffmpeg r)
                            then process_kill (kill_ok env) (ffmpeg r) ''SIGINT'' u else Inr u)
              (try_catch (transport_close (transport_close_ok env) (transport r))
                (try_catch (consumer_close (consumer_close_ok env) (consumer r)) s)))
            \<lparr>recordings := (recordings s)(producerId := None)\<rparr>))"
  by (simp add: stopRecordingForProducer_def Let_def try_consumer_close try_transport_close try_kill)

lemma stop_returns:
  "\<exists>s'. stopRecordingForProducer env producerId s = Inr s' \<and> recordings s' producerId = None"
  by (cases "recordings s producerId") (simp_all add: stop_absent stop_present)

lemma run_listeners_absent:
  "recordings s producerId = None \<Longrightarrow> run_listeners env ls producerId event s = Inr s"
  by (induction ls) (auto simp: stop_absent)

lemma run_listeners_present:
  "(producerId, event) \<in> set ls \<Longrightarrow>
   run_listeners env ls producerId event s = stopRecordingForProducer env producerId s"
proof (induction ls)
  case Nil
  then show ?case by simp
next
  case (Cons l ls)
  obtain q e where l: "l = (q, e)" by (cases l)
  show ?case
  proof (cases "q = producerId \<and> e = event")
    case True
    obtain s' where s': "stopRecordingForProducer env producerId s = Inr s'"
      "recordings s' producerId = None"
      using stop_returns by blast
    then show ?thesis
      using True l by (simp add: run_listeners_absent)
  next
    case False
    then show ?thesis
      using Cons l by auto
  qed
qed

lemma stop_trace_running:
  assumes "recordings s producerId = Some r"
      and "\<not> pr_killed (procs s ! ffmpeg r)" "\<not> pr_exited (procs s ! ffmpeg r)"
      and "consumer_close_ok env" "transport_close_ok env" "kill_ok env"
      and "stopRecordingForProducer env producerId s = Inr s'"
  shows "trace s' = trace s @
           [CloseConsumer (consumer r), CloseTransport (transport r), Kill (ffmpeg r) ''SIGINT'']"
  using assms by (auto simp: stop_present try_consumer_close try_transport_close try_kill)

lemma run_task_Finished: "run_task cfg env Finished s = s"
  by (simp add: run_task.simps)

lemma run_task_step:
  "t \<noteq> Finished \<Longrightarrow>
   run_task cfg env t s =
     run_task cfg env (fst (start_step cfg env t s)) (snd (start_step cfg env t s))"
  by (subst run_task.simps) simp

lemma run_AwaitResume:
  "run_task cfg env (AwaitResume p r) s =
     (if resume_ok env then
        console_log ''[record] started''
          (s\<lparr>consumers := (consumers s)[consumer r := (consumers s ! consumer r)\<lparr>cn_paused := False\<rparr>],
             recordings := (recordings s)(prod_id p \<mapsto> r),
             listeners := listeners s @
               [(prod_id p, ''transportclose''), (prod_id p, ''producerclose'')]\<rparr>)
      else console_log ''[record] start error'' s)"
  by (simp add: run_task_step run_task_Finished start_error_def)

lemma run_AwaitSettle:
  "run_task cfg env (AwaitSettle p r) s =
     run_task cfg env (AwaitResume p r) (s\<lparr>trace := trace s @ [Sleep 150, Resume (consumer r)]\<rparr>)"
  by (simp add: run_task_step)

lemma step_AwaitConsume_ok:
  assumes "consume_res env = Some (pt, ssrc)" "write_ok env" "spawn_ok env"
  shows "start_step cfg env (AwaitConsume p rtpPort t) s =
     (AwaitSettle p (session_of cfg env p s t),
      s\<lparr>consumers := consumers s @
           [\<lparr>cn_producerId = prod_id p, cn_transport = t, cn_payloadType = pt, cn_ssrc = ssrc,
             cn_paused = True, cn_closed = False\<rparr>],
        files := (files s)(sdpFile (session_of cfg env p s t) \<mapsto>
                   Text (buildOpusSdp ''127.0.0.1'' rtpPort pt ssrc)),
        procs := procs s @
           [\<lparr>pr_command = ''ffmpeg'',
             pr_args = record_args (sdpFile (session_of cfg env p s t))
                         (file_out (session_of cfg env p s t)),
             pr_on_exit = RecorderExit (file_out (session_of cfg env p s t))
                            (sdpFile (session_of cfg env p s t)),
             pr_killed = False, pr_exited = False\<rparr>],
        trace := trace s @ [Consume (length (consumers s)),
                            WriteFile (sdpFile (session_of cfg env p s t)),
                            Spawn (length (procs s))]\<rparr>)"
  using assms by (simp add: session_of_def writeFileSync_def spawn_def Let_def)






lemma start_ok:
  assumes "port_res env = Some rtpPort" "create_ok env" "connect_ok env" "can_consume env"
      and "consume_res env = Some (pt, ssrc)" "write_ok env" "spawn_ok env" "resume_ok env"
  shows "startRecordingForProducer cfg env p s =
     s\<lparr>plain_transports := plain_transports s @ [\<lparr>tr_port = Some rtpPort, tr_closed = False\<rparr>],
       consumers := consumers s @
         [\<lparr>cn_producerId = prod_id p, cn_transport = length (plain_transports s),
           cn_payloadType = pt, cn_ssrc = ssrc, cn_paused = False, cn_closed = False\<rparr>],
       procs := procs s @
         [\<lparr>pr_command = ''ffmpeg'',
           pr_args = record_args (sdpFile (session_of cfg env p s (length (plain_transports s))))
                       (file_out (session_of cfg env p s (length (plain_transports s)))),
           pr_on_exit = RecorderExit (file_out (session_of cfg env p s (length (plain_transports s))))
                          (sdpFile (session_of cfg env p s (length (plain_transports s)))),
           pr_killed = False, pr_exited = False\<rparr>],
       files := (files s)(sdpFile (session_of cfg env p s (length (plain_transports s))) \<mapsto>
                  Text (buildOpusSdp ''127.0.0.1'' rtpPort pt ssrc)),
       recordings := (recordings s)(prod_id p \<mapsto>
                  session_of cfg env p s (length (plain_transports s))),
       listeners := listeners s @
         [(prod_id p, ''transportclose''), (prod_id p, ''producerclose'')],
       trace := trace s @
         [CreateTransport (length (plain_transports s)),
          ConnectTransport (length (plain_transports s)) rtpPort,
          Consume (length (consumers s)),
          WriteFile (sdpFile (session_of cfg env p s (length (plain_transports s)))),
          Spawn (length (procs s)), Sleep 150, Resume (length (consumers s))],
       console := console s @ [''[record] started'']\<rparr>"
proof -
  let ?t = "length (plain_transports s)"
  let ?s2 = "s\<lparr>plain_transports := plain_transports s @ [\<lparr>tr_port = Some rtpPort, tr_closed = False\<rparr>],
                trace := trace s @ [CreateTransport ?t, ConnectTransport ?t rtpPort]\<rparr>"
  have a: "startRecordingForProducer cfg env p s = run_task cfg env (AwaitConsume p rtpPort ?t) ?s2"
    using assms
    by (simp add: startRecordingForProducer_def run_task_step [of "AwaitPort p"]
        run_task_step [of "AwaitCreate p rtpPort"] run_task_step [of "AwaitConnect p rtpPort ?t"])
  show ?thesis
    unfolding a using assms
    by (simp add: run_task_step [of "AwaitConsume p rtpPort ?t"] step_AwaitConsume_ok
        run_AwaitSettle run_AwaitResume session_of_def console_log_def del: start_step.simps)
qed

lemma start_cannot_consume:
  assumes "port_res env = Some rtpPort" "create_ok env" "connect_ok env" "\<not> can_consume env"
  shows "startRecordingForProducer cfg env p s =
     (if close_ok env then
        s\<lparr>plain_transports := plain_transports s @ [\<lparr>tr_port = Some rtpPort, tr_closed = True\<rparr>],
          trace := trace s @
            [CreateTransport (length (plain_transports s)),
             ConnectTransport (length (plain_transports s)) rtpPort,
             CloseTransport (length (plain_transports s))],
          console := console s @ [''[record] cannot consume producer'']\<rparr>
      else
        s\<lparr>plain_transports := plain_transports s @ [\<lparr>tr_port = Some rtpPort, tr_closed = False\<rparr>],
          trace := trace s @
            [CreateTransport (length (plain_transports s)),
             ConnectTransport (length (plain_transports s)) rtpPort],
          console := console s @ [''[record] cannot consume producer'', ''[record] start error'']\<rparr>)"
  using assms
  by (simp add: startRecordingForProducer_def run_task_step run_task_Finished start_error_def
      transport_close_def Let_def console_log_def)

lemma disk_files [simp]:
  "files (disk b n) (b @ ''.ogg'') = Some (Blob n)"
  "files (disk b n) (b @ ''.sdp'') = Some (Text ''v=0'')"
  "files (disk b n) (b @ ''.mp3'') = None"
  "procs (disk b n) = []"
  by (simp_all add: disk_def no_state_def)

lemma start_env_ok:
  "startRecordingForProducer cfg (env_ok clock) p s =
     s\<lparr>plain_transports := plain_transports s @ [\<lparr>tr_port = Some 40001, tr_closed = False\<rparr>],
       consumers := consumers s @
         [\<lparr>cn_producerId = prod_id p, cn_transport = length (plain_transports s),
           cn_payloadType = 100, cn_ssrc = 7, cn_paused = False, cn_closed = False\<rparr>],
       procs := procs s @
         [\<lparr>pr_command = ''ffmpeg'',
           pr_args = record_args (sdpFile (session_of cfg (env_ok clock) p s (length (plain_transports s))))
                       (file_out (session_of cfg (env_ok clock) p s (length (plain_transports s)))),
           pr_on_exit = RecorderExit (file_out (session_of cfg (env_ok clock) p s (length (plain_transports s))))
                          (sdpFile (session_of cfg (env_ok clock) p s (length (plain_transports s)))),
           pr_killed = False, pr_exited = False\<rparr>],
       files := (files s)(sdpFile (session_of cfg (env_ok clock) p s (length (plain_transports s))) \<mapsto>
                  Text (buildOpusSdp ''127.0.0.1'' 40001 100 7)),
       recordings := (recordings s)(prod_id p \<mapsto>
                  session_of cfg (env_ok clock) p s (length (plain_transports s))),
       listeners := listeners s @
         [(prod_id p, ''transportclose''), (prod_id p, ''producerclose'')],
       trace := trace s @
         [CreateTransport (length (plain_transports s)),
          ConnectTransport (length (plain_transports s)) 40001,
          Consume (length (consumers s)),
          WriteFile (sdpFile (session_of cfg (env_ok clock) p s (length (plain_transports s)))),
          Spawn (length (procs s)), Sleep 150, Resume (length (consumers s))],
       console := console s @ [''[record] started'']\<rparr>"
  by (rule start_ok) (simp_all add: env_ok_def)

lemma session_of_env_ok:
  "session_of cfg (env_ok clock) (mk_producer i) s t =
     \<lparr>ffmpeg = length (procs s), consumer = length (consumers s), transport = t,
      file_out = RECORD_DIR cfg @ ''/'' @ clock @ ''_peer-a_prod-'' @ i @ ''.ogg'',
      sdpFile = RECORD_DIR cfg @ ''/'' @ clock @ ''_peer-a_prod-'' @ i @ ''.sdp''\<rparr>"
  by (simp add: session_of_def env_ok_def mk_producer_def peer_label_def path_join_def)

lemma live_state:
  "live = \<lparr>plain_transports = [\<lparr>tr_port = Some 40001, tr_closed = False\<rparr>],
       consumers =
         [\<lparr>cn_producerId = ''P1'', cn_transport = 0,
           cn_payloadType = 100, cn_ssrc = 7, cn_paused = False, cn_closed = False\<rparr>],
       procs =
         [\<lparr>pr_command = ''ffmpeg'',
           pr_args = record_args ''/rec/t_peer-a_prod-P1.sdp'' ''/rec/t_peer-a_prod-P1.ogg'',
           pr_on_exit = RecorderExit ''/rec/t_peer-a_prod-P1.ogg'' ''/rec/t_peer-a_prod-P1.sdp'',
           pr_killed = False, pr_exited = False\<rparr>],
       files = [''/rec/t_peer-a_prod-P1.sdp'' \<mapsto> Text (buildOpusSdp ''127.0.0.1'' 40001 100 7)],
       recordings = [''P1'' \<mapsto> \<lparr>ffmpeg = 0, consumer = 0, transport = 0,
                       file_out = ''/rec/t_peer-a_prod-P1.ogg'',
                       sdpFile = ''/rec/t_peer-a_prod-P1.sdp''\<rparr>],
       listeners = [(''P1'', ''transportclose''), (''P1'', ''producerclose'')],
       trace = [CreateTransport 0, ConnectTransport 0 40001, Consume 0,
                WriteFile ''/rec/t_peer-a_prod-P1.sdp'', Spawn 0, Sleep 150, Resume 0],
       console = [''[record] started'']\<rparr>"
  by (simp add: live_def start_env_ok session_of_env_ok)
     (simp add: no_state_def cfg_ogg_def mk_producer_def)

lemma stopped_stop: "stopRecordingForProducer stop_ok ''P1'' live = Inr stopped"
proof -
  obtain s' where "stopRecordingForProducer stop_ok ''P1'' live = Inr s'"
    using stop_returns by blast
  then show ?thesis
    by (simp add: stopped_def try_catch_def)
qed

lemma stopped_state:
  "recordings stopped = Map.empty"
  "procs stopped = [(procs live ! 0)\<lparr>pr_killed := True\<rparr>]"
  "trace stopped = trace live @ [CloseConsumer 0, CloseTransport 0, Kill 0 ''SIGINT'']"
proof -
  have r: "recordings live ''P1'' = Some \<lparr>ffmpeg = 0, consumer = 0, transport = 0,
         file_out = ''/rec/t_peer-a_prod-P1.ogg'', sdpFile = ''/rec/t_peer-a_prod-P1.sdp''\<rparr>"
    by (simp add: live_state)
  have s: "stopped = console_log ''[record] stopped''
           ((try_catch (\<lambda>u. if \<not> pr_killed (procs u ! 0)
                            then process_kill True 0 ''SIGINT'' u else Inr u)
              (try_catch (transport_close True 0)
                (try_catch (consumer_close True 0) live)))
            \<lparr>recordings := (recordings live)(''P1'' := None)\<rparr>)"
  proof -
    have "stopRecordingForProducer stop_ok ''P1'' live = Inr (console_log ''[record] stopped''
           ((try_catch (\<lambda>u. if \<not> pr_killed (procs u ! 0)
                            then process_kill True 0 ''SIGINT'' u else Inr u)
              (try_catch (transport_close True 0)
                (try_catch (consumer_close True 0) live)))
            \<lparr>recordings := (recordings live)(''P1'' := None)\<rparr>))"
      by (simp add: stop_present [OF r] stop_ok_def cong: if_cong)
    with stopped_stop show ?thesis by simp
  qed
  show "recordings stopped = Map.empty"
    unfolding s by (simp add: live_state)
  show "procs stopped = [(procs live ! 0)\<lparr>pr_killed := True\<rparr>]"
    unfolding s by (simp add: try_consumer_close try_transport_close try_kill live_state)
  show "trace stopped = trace live @ [CloseConsumer 0, CloseTransport 0, Kill 0 ''SIGINT'']"
    unfolding s by (simp add: try_consumer_close try_transport_close try_kill live_state)
qed

lemma recordings_try_unlink [simp]:
  "recordings (try_catch (unlinkSync path) s) = recordings s"
  by (auto simp: try_catch_def unlinkSync_def split: option.splits)

lemma recordings_mp3_exit [simp]:
  "recordings (mp3_exit cfg oggFile mp3File sdp code s) = recordings s"
  by (simp add: mp3_exit_def Let_def)

lemma recordings_ffmpeg_exit [simp]:
  "recordings (ffmpeg_exit cfg b outFile sdp code signal s) = recordings s"
  by (simp add: ffmpeg_exit_def Let_def convertOggToMp3_def spawn_def split: sum.splits)

lemma recordings_process_exit:
  "recordings (process_exit cfg b q code signal s) = recordings s"
  by (simp add: process_exit_def Let_def split: exit_listener.splits)

lemma exited_after_kill:
  "map pr_exited (ps[p := (ps ! p)\<lparr>pr_killed := True\<rparr>]) = map pr_exited ps"
proof (cases "p < length ps")
  case True
  then have "(map pr_exited ps)[p := pr_exited (ps ! p)] = map pr_exited ps"
    by (metis list_update_id nth_map)
  then show ?thesis
    by (simp add: map_update)
next
  case False
  then have "ps[p := (ps ! p)\<lparr>pr_killed := True\<rparr>] = ps"
    by (metis list_update_beyond not_less)
  then show ?thesis
    by simp
qed



lemma spawn_step_result:
  assumes "start_step cfg env (AwaitConsume p rtpPort t) s = (AwaitSettle q r, w)"
  shows "q = p \<and> r = session_of cfg env p s t \<and>
         recordings w = recordings s \<and> listeners w = listeners s \<and>
         plain_transports w = plain_transports s \<and>
         length (consumers w) = Suc (length (consumers s)) \<and>
         length (procs w) = Suc (length (procs s)) \<and>
         \<not> cn_closed (consumers w ! consumer r) \<and> cn_paused (consumers w ! consumer r) \<and>
         \<not> pr_killed (procs w ! ffmpeg r) \<and> \<not> pr_exited (procs w ! ffmpeg r) \<and>
         pr_on_exit (procs w ! ffmpeg r) = RecorderExit (file_out r) (sdpFile r)"
  using assms
  by (auto simp: start_error_def writeFileSync_def spawn_def Let_def session_of_def
      split: option.splits if_splits)

lemma window_noop:
  assumes "recordings w producerId = None"
  shows "stopRecordingForProducer senv producerId w = Inr w \<and>
         emit senv producerId event w = Inr w \<and>
         recordingFile w producerId = None"
  using assms by (simp add: stop_absent emit_def run_listeners_absent recordingFile_def)

lemma connected_state:
  "connected = no_state\<lparr>plain_transports := [\<lparr>tr_port = Some 40001, tr_closed = False\<rparr>],
                          trace := [CreateTransport 0, ConnectTransport 0 40001]\<rparr>"
  by (simp add: connected_def env_ok_def no_state_def)

lemma window_step:
  "start_step cfg_ogg (env_ok ''t'') (AwaitConsume (mk_producer ''P1'') 40001 0) connected =
     (AwaitSettle (mk_producer ''P1'')
        \<lparr>ffmpeg = 0, consumer = 0, transport = 0,
         file_out = ''/rec/t_peer-a_prod-P1.ogg'', sdpFile = ''/rec/t_peer-a_prod-P1.sdp''\<rparr>,
      window)"
proof -
  have e: "consume_res (env_ok ''t'') = Some (100, 7)" "write_ok (env_ok ''t'')"
    "spawn_ok (env_ok ''t'')"
    by (simp_all add: env_ok_def)
  have "fst (start_step cfg_ogg (env_ok ''t'') (AwaitConsume (mk_producer ''P1'') 40001 0) connected) =
          AwaitSettle (mk_producer ''P1'') (session_of cfg_ogg (env_ok ''t'') (mk_producer ''P1'') connected 0)"
    by (simp add: step_AwaitConsume_ok [OF e] del: start_step.simps)
  moreover have "session_of cfg_ogg (env_ok ''t'') (mk_producer ''P1'') connected 0 =
        \<lparr>ffmpeg = 0, consumer = 0, transport = 0,
         file_out = ''/rec/t_peer-a_prod-P1.ogg'', sdpFile = ''/rec/t_peer-a_prod-P1.sdp''\<rparr>"
    by (simp add: session_of_env_ok connected_state no_state_def cfg_ogg_def)
  ultimately show ?thesis
    by (simp add: window_def prod_eq_iff del: start_step.simps)
qed

lemma exit_ok_iff:
  "exit_ok code signal (has_data s outFile) \<longleftrightarrow>
     code = Some 0 \<or> code = Some 255 \<or> signal = Some ''SIGINT'' \<or>
     (\<exists>d. files s outFile = Some d \<and> 8192 < st_size d)"
  by (auto simp: exit_ok_def has_data_def split: option.splits)



lemma has_data_procs [simp]: "has_data (s\<lparr>procs := ps\<rparr>) f = has_data s f"
  by (simp add: has_data_def)



section \<open>Claims\<close>

text \<open>
  C1 (Scenario D), as the specification states it: starting a session for a producer
  that already has one is a no-op, so two start calls yield one session and one set of
  resources. \<^verbatim>\<open>startRecordingForProducer\<close> never reads the registry. Here producer P1
  has a streaming session (one transport, one consumer, one recorder) and is started
  again: afterwards there are two transports, two consumers, two recorder processes and
  two descriptor files.
\<close>

theorem C1_counterexample:
  "recordings live ''P1'' \<noteq> None \<and>
   length (plain_transports live) = 1 \<and> length (consumers live) = 1 \<and> length (procs live) = 1 \<and>
   length (plain_transports (startRecordingForProducer cfg_ogg (env_ok ''u'') (mk_producer ''P1'') live)) = 2 \<and>
   length (consumers (startRecordingForProducer cfg_ogg (env_ok ''u'') (mk_producer ''P1'') live)) = 2 \<and>
   length (procs (startRecordingForProducer cfg_ogg (env_ok ''u'') (mk_producer ''P1'') live)) = 2 \<and>
   files (startRecordingForProducer cfg_ogg (env_ok ''u'') (mk_producer ''P1'') live)
     ''/rec/t_peer-a_prod-P1.sdp'' \<noteq> None \<and>
   files (startRecordingForProducer cfg_ogg (env_ok ''u'') (mk_producer ''P1'') live)
     ''/rec/u_peer-a_prod-P1.sdp'' \<noteq> None"
  by (simp add: start_env_ok session_of_env_ok)
     (simp add: live_state cfg_ogg_def)

text \<open>
  C1, amended: a start call whose awaited calls all succeed allocates a new relay
  transport, a new consumer, a descriptor file and a new recorder process whether or not
  the registry already holds a session for the producer, and then stores its session
  under the producer id. The registry is a map, so it holds one session per producer
  id: an earlier session of that producer is replaced in the registry, while its
  transport, consumer and process are left as they were and are distinct from the new
  ones.
\<close>

theorem C1_amended:
  assumes "port_res env = Some rtpPort" "create_ok env" "connect_ok env" "can_consume env"
      and "consume_res env = Some (pt, ssrc)" "write_ok env" "spawn_ok env" "resume_ok env"
  shows "length (plain_transports (startRecordingForProducer cfg env p s)) =
           Suc (length (plain_transports s)) \<and>
         length (consumers (startRecordingForProducer cfg env p s)) = Suc (length (consumers s)) \<and>
         length (procs (startRecordingForProducer cfg env p s)) = Suc (length (procs s)) \<and>
         files (startRecordingForProducer cfg env p s)
           (sdpFile (session_of cfg env p s (length (plain_transports s)))) \<noteq> None \<and>
         recordings (startRecordingForProducer cfg env p s) =
           (recordings s)(prod_id p \<mapsto> session_of cfg env p s (length (plain_transports s))) \<and>
         (\<forall>old. recordings s (prod_id p) = Some old \<and>
            transport old < length (plain_transports s) \<and>
            consumer old < length (consumers s) \<and> ffmpeg old < length (procs s) \<longrightarrow>
            plain_transports (startRecordingForProducer cfg env p s) ! transport old =
              plain_transports s ! transport old \<and>
            consumers (startRecordingForProducer cfg env p s) ! consumer old =
              consumers s ! consumer old \<and>
            procs (startRecordingForProducer cfg env p s) ! ffmpeg old = procs s ! ffmpeg old \<and>
            transport (session_of cfg env p s (length (plain_transports s))) \<noteq> transport old \<and>
            consumer (session_of cfg env p s (length (plain_transports s))) \<noteq> consumer old \<and>
            ffmpeg (session_of cfg env p s (length (plain_transports s))) \<noteq> ffmpeg old)"
  using assms by (simp add: start_ok nth_append session_of_def)

theorem C1_amended_witness:
  "recordings live ''P1'' = Some \<lparr>ffmpeg = 0, consumer = 0, transport = 0,
       file_out = ''/rec/t_peer-a_prod-P1.ogg'', sdpFile = ''/rec/t_peer-a_prod-P1.sdp''\<rparr> \<and>
   length (procs (startRecordingForProducer cfg_ogg (env_ok ''u'') (mk_producer ''P1'') live)) = 2 \<and>
   recordings (startRecordingForProducer cfg_ogg (env_ok ''u'') (mk_producer ''P1'') live) ''P1'' =
     Some \<lparr>ffmpeg = 1, consumer = 1, transport = 1,
       file_out = ''/rec/u_peer-a_prod-P1.ogg'', sdpFile = ''/rec/u_peer-a_prod-P1.sdp''\<rparr> \<and>
   procs (startRecordingForProducer cfg_ogg (env_ok ''u'') (mk_producer ''P1'') live) ! 0 =
     procs live ! 0"
proof -
  have e: "port_res (env_ok ''u'') = Some 40001" "create_ok (env_ok ''u'')"
    "connect_ok (env_ok ''u'')" "can_consume (env_ok ''u'')"
    "consume_res (env_ok ''u'') = Some (100, 7)" "write_ok (env_ok ''u'')"
    "spawn_ok (env_ok ''u'')" "resume_ok (env_ok ''u'')"
    by (simp_all add: env_ok_def)
  have l: "recordings live ''P1'' = Some \<lparr>ffmpeg = 0, consumer = 0, transport = 0,
       file_out = ''/rec/t_peer-a_prod-P1.ogg'', sdpFile = ''/rec/t_peer-a_prod-P1.sdp''\<rparr>"
    "length (plain_transports live) = 1" "length (consumers live) = 1" "length (procs live) = 1"
    by (simp_all add: live_state)
  have p: "prod_id (mk_producer ''P1'') = ''P1''"
    by (simp add: mk_producer_def)
  have q: "session_of cfg_ogg (env_ok ''u'') (mk_producer ''P1'') live 1 =
     \<lparr>ffmpeg = 1, consumer = 1, transport = 1,
       file_out = ''/rec/u_peer-a_prod-P1.ogg'', sdpFile = ''/rec/u_peer-a_prod-P1.sdp''\<rparr>"
    using l by (simp add: session_of_env_ok cfg_ogg_def)
  show ?thesis
    using C1_amended [OF e, of cfg_ogg "mk_producer ''P1''" live] l p q
    by simp
qed

text \<open>
  C2 (Scenario C), as the specification states it: a recorder stopped by the session's own
  SIGINT with a raw file of 2 KB is classified unusable and post-conversion is skipped.
  The handler does otherwise: \<^verbatim>\<open>signal === 'SIGINT'\<close> alone makes \<^verbatim>\<open>ok\<close> true.
  With post-conversion enabled the converter is spawned on the 2 KB file, and once it
  exits with code 0 and keep-raw is off, the raw file is unlinked.
\<close>

theorem C2_counterexample:
  "\<not> has_data (disk ''/rec/c'' 2048) ''/rec/c.ogg'' \<and>
   exit_ok None (Some ''SIGINT'') (has_data (disk ''/rec/c'' 2048) ''/rec/c.ogg'') \<and>
   procs (ffmpeg_exit cfg_mp3 True ''/rec/c.ogg'' ''/rec/c.sdp'' None (Some ''SIGINT'')
            (disk ''/rec/c'' 2048)) =
     [\<lparr>pr_command = ''ffmpeg'', pr_args = mp3_args ''/rec/c.ogg'' ''160k'',
       pr_on_exit = ConverterExit ''/rec/c.ogg'' ''/rec/c.mp3'' ''/rec/c.sdp'',
       pr_killed = False, pr_exited = False\<rparr>] \<and>
   files (mp3_exit cfg_mp3 ''/rec/c.ogg'' ''/rec/c.mp3'' ''/rec/c.sdp'' (Some 0)
            (tool_writes ''/rec/c.mp3'' 700
               (ffmpeg_exit cfg_mp3 True ''/rec/c.ogg'' ''/rec/c.sdp'' None (Some ''SIGINT'')
                  (disk ''/rec/c'' 2048)))) ''/rec/c.ogg'' = None"
  by (simp add: disk_def no_state_def cfg_mp3_def has_data_def exit_ok_def ffmpeg_exit_def
      convertOggToMp3_def spawn_def mp3_exit_def tool_writes_def try_catch_def unlinkSync_def
      console_log_def mp3_name_def ends_with_ogg_def Let_def)

text \<open>
  C2, amended: when the recorder is terminated by SIGINT and the raw file is at most
  8192 bytes, \<^verbatim>\<open>hasData\<close> is false but the capture is classified usable. With
  post-conversion disabled no converter is spawned, the raw file stays and the descriptor
  is removed. With post-conversion enabled the converter is spawned on the raw file;
  when it exits, the descriptor is removed, and the raw file is removed exactly if the
  exit code is 0 and keep-raw is off.
\<close>

theorem C2_amended:
  assumes small: "files s (b @ ''.ogg'') = Some d" "st_size d \<le> 8192"
  shows "\<not> has_data s (b @ ''.ogg'') \<and>
         exit_ok code (Some ''SIGINT'') (has_data s (b @ ''.ogg'')) \<and>
         (\<not> POST_CONVERT_MP3 cfg \<longrightarrow>
            procs (ffmpeg_exit cfg sp (b @ ''.ogg'') (b @ ''.sdp'') code (Some ''SIGINT'') s) = procs s \<and>
            files (ffmpeg_exit cfg sp (b @ ''.ogg'') (b @ ''.sdp'') code (Some ''SIGINT'') s) (b @ ''.ogg'') = Some d \<and>
            files (ffmpeg_exit cfg sp (b @ ''.ogg'') (b @ ''.sdp'') code (Some ''SIGINT'') s) (b @ ''.sdp'') = None) \<and>
         (POST_CONVERT_MP3 cfg \<longrightarrow>
            procs (ffmpeg_exit cfg True (b @ ''.ogg'') (b @ ''.sdp'') code (Some ''SIGINT'') s) =
              procs s @ [\<lparr>pr_command = ''ffmpeg'',
                          pr_args = mp3_args (b @ ''.ogg'') (RECORD_BITRATE cfg),
                          pr_on_exit = ConverterExit (b @ ''.ogg'') (b @ ''.mp3'') (b @ ''.sdp''),
                          pr_killed = False, pr_exited = False\<rparr>]) \<and>
         (files s2 (b @ ''.ogg'') = Some d \<longrightarrow>
            files (mp3_exit cfg (b @ ''.ogg'') (b @ ''.mp3'') (b @ ''.sdp'') code2 s2) (b @ ''.sdp'') = None \<and>
            files (mp3_exit cfg (b @ ''.ogg'') (b @ ''.mp3'') (b @ ''.sdp'') code2 s2) (b @ ''.ogg'') =
              (if code2 = Some 0 \<and> \<not> KEEP_OGG cfg then None else Some d))"
proof -
  have nodata: "\<not> has_data s (b @ ''.ogg'')"
    using small by (simp add: has_data_def)
  have ok: "exit_ok code (Some ''SIGINT'') (has_data s (b @ ''.ogg''))"
    by (rule exit_ok_sigint)
  have skip: "\<not> POST_CONVERT_MP3 cfg \<longrightarrow>
            procs (ffmpeg_exit cfg sp (b @ ''.ogg'') (b @ ''.sdp'') code (Some ''SIGINT'') s) = procs s \<and>
            files (ffmpeg_exit cfg sp (b @ ''.ogg'') (b @ ''.sdp'') code (Some ''SIGINT'') s) (b @ ''.ogg'') = Some d \<and>
            files (ffmpeg_exit cfg sp (b @ ''.ogg'') (b @ ''.sdp'') code (Some ''SIGINT'') s) (b @ ''.sdp'') = None"
    using small by (simp add: ffmpeg_exit_skip files_try_unlink)
  have conv: "POST_CONVERT_MP3 cfg \<longrightarrow>
            procs (ffmpeg_exit cfg True (b @ ''.ogg'') (b @ ''.sdp'') code (Some ''SIGINT'') s) =
              procs s @ [\<lparr>pr_command = ''ffmpeg'',
                          pr_args = mp3_args (b @ ''.ogg'') (RECORD_BITRATE cfg),
                          pr_on_exit = ConverterExit (b @ ''.ogg'') (b @ ''.mp3'') (b @ ''.sdp''),
                          pr_killed = False, pr_exited = False\<rparr>]"
    using ok by (simp add: ffmpeg_exit_convert mp3_name_ogg)
  have fin: "files s2 (b @ ''.ogg'') = Some d \<longrightarrow>
            files (mp3_exit cfg (b @ ''.ogg'') (b @ ''.mp3'') (b @ ''.sdp'') code2 s2) (b @ ''.sdp'') = None \<and>
            files (mp3_exit cfg (b @ ''.ogg'') (b @ ''.mp3'') (b @ ''.sdp'') code2 s2) (b @ ''.ogg'') =
              (if code2 = Some 0 \<and> \<not> KEEP_OGG cfg then None else Some d)"
    by (simp add: files_mp3_exit)
  from nodata ok skip conv fin show ?thesis by blast
qed

theorem C2_amended_witness:
  "\<not> has_data (disk ''/rec/c'' 2048) ''/rec/c.ogg'' \<and>
   exit_ok None (Some ''SIGINT'') (has_data (disk ''/rec/c'' 2048) ''/rec/c.ogg'') \<and>
   files (ffmpeg_exit cfg_ogg True ''/rec/c.ogg'' ''/rec/c.sdp'' None (Some ''SIGINT'')
            (disk ''/rec/c'' 2048)) ''/rec/c.ogg'' = Some (Blob 2048) \<and>
   files (ffmpeg_exit cfg_ogg True ''/rec/c.ogg'' ''/rec/c.sdp'' None (Some ''SIGINT'')
            (disk ''/rec/c'' 2048)) ''/rec/c.sdp'' = None"
proof -
  have f: "files (disk ''/rec/c'' 2048) (''/rec/c'' @ ''.ogg'') = Some (Blob 2048)"
    by (rule disk_files(1))
  have z: "st_size (Blob 2048) \<le> 8192"
    by simp
  have d: "\<not> POST_CONVERT_MP3 cfg_ogg"
    by (simp add: cfg_ogg_def)
  show ?thesis
    using C2_amended [OF f z, of None cfg_ogg True "disk ''/rec/c'' 2048" None] d
    by (simp add: exit_ok_def)
qed

text \<open>
  C3, as the specification states it: a session leaves the registry only after its
  transport, consumer and recorder process are terminal, at the transition to CLOSED
  after the recorder has exited. \<^verbatim>\<open>stopRecordingForProducer\<close> deletes the entry in
  the call that sends SIGINT: here the session of P1 is gone from the registry while
  its recorder process has not exited.
\<close>

theorem C3_counterexample:
  "stopRecordingForProducer stop_ok ''P1'' live = Inr stopped \<and>
   recordings live ''P1'' \<noteq> None \<and>
   recordings stopped ''P1'' = None \<and>
   \<not> pr_exited (procs stopped ! 0)"
  by (simp add: stopped_stop stopped_state) (simp add: live_state)

text \<open>
  C3, amended: a session is removed from the registry by
  \<^verbatim>\<open>stopRecordingForProducer\<close>, in the call that closes its consumer and its relay
  transport (when those calls do not throw) and sends SIGINT to its recorder process
  (when it was not signalled before and has not exited). The removal does not wait for
  the recorder: no process changes its exited flag in that call. The exit handlers of
  the recorder and of the converter never change the registry.
\<close>

theorem C3_amended:
  assumes "recordings s producerId = Some r"
  shows "\<exists>s'. stopRecordingForProducer env producerId s = Inr s' \<and>
           recordings s' = (recordings s)(producerId := None) \<and>
           map pr_exited (procs s') = map pr_exited (procs s) \<and>
           (consumer_close_ok env \<and> consumer r < length (consumers s) \<longrightarrow>
              cn_closed (consumers s' ! consumer r)) \<and>
           (transport_close_ok env \<and> transport r < length (plain_transports s) \<longrightarrow>
              tr_closed (plain_transports s' ! transport r)) \<and>
           (kill_ok env \<and> ffmpeg r < length (procs s) \<longrightarrow>
              pr_killed (procs s' ! ffmpeg r) \<or> pr_exited (procs s' ! ffmpeg r)) \<and>
           recordings (process_exit cfg b q code signal s) = recordings s"
  using assms
  by (simp add: stop_present try_consumer_close try_transport_close try_kill
      recordings_process_exit exited_after_kill)

theorem C3_amended_witness:
  "\<exists>s'. stopRecordingForProducer stop_ok ''P1'' live = Inr s' \<and>
        recordings s' ''P1'' = None \<and>
        map pr_exited (procs s') = [False] \<and>
        cn_closed (consumers s' ! 0) \<and> tr_closed (plain_transports s' ! 0) \<and>
        pr_killed (procs s' ! 0)"
proof -
  have r: "recordings live ''P1'' = Some \<lparr>ffmpeg = 0, consumer = 0, transport = 0,
         file_out = ''/rec/t_peer-a_prod-P1.ogg'', sdpFile = ''/rec/t_peer-a_prod-P1.sdp''\<rparr>"
    by (simp add: live_state)
  have l: "map pr_exited (procs live) = [False]" "length (consumers live) = 1"
    "length (plain_transports live) = 1" "length (procs live) = 1"
    by (simp_all add: live_state)
  have e: "consumer_close_ok stop_ok" "transport_close_ok stop_ok" "kill_ok stop_ok"
    by (simp_all add: stop_ok_def)
  obtain s' where s': "stopRecordingForProducer stop_ok ''P1'' live = Inr s'"
    "recordings s' = (recordings live)(''P1'' := None)"
    "map pr_exited (procs s') = map pr_exited (procs live)"
    "cn_closed (consumers s' ! 0)" "tr_closed (plain_transports s' ! 0)"
    "pr_killed (procs s' ! 0) \<or> pr_exited (procs s' ! 0)"
    using C3_amended [OF r, of stop_ok cfg_ogg True 0 None None] l e by auto
  have x: "\<not> pr_exited (procs s' ! 0)"
  proof -
    have "length (procs s') = 1"
      using s'(3) l(1) by (metis length_map list.size(3,4) One_nat_def add_0)
    then have "map pr_exited (procs s') ! 0 = pr_exited (procs s' ! 0)"
      by simp
    then show ?thesis
      using s'(3) l(1) by simp
  qed
  show ?thesis
    using s' l x by auto
qed

text \<open>
  C4, as the specification states it, read as the rule that separates usable from
  unusable captures: a termination is usable when the exit code is 0, or the signal is
  SIGINT, or the output file exceeds the threshold. The code has a fourth case, exit
  code 255. Here the recorder exits with code 255 and no signal, the file has 100
  bytes, so none of the three conditions holds, and the capture is classified usable:
  with post-conversion enabled the converter is spawned.
\<close>

theorem C4_counterexample:
  "Some (255::int) \<noteq> Some 0 \<and> (None :: string option) \<noteq> Some ''SIGINT'' \<and>
   files (disk ''/rec/a'' 100) ''/rec/a.ogg'' = Some (Blob 100) \<and>
   \<not> 8192 < st_size (Blob 100) \<and>
   exit_ok (Some 255) None (has_data (disk ''/rec/a'' 100) ''/rec/a.ogg'') \<and>
   procs (ffmpeg_exit cfg_mp3 True ''/rec/a.ogg'' ''/rec/a.sdp'' (Some 255) None (disk ''/rec/a'' 100)) =
     [\<lparr>pr_command = ''ffmpeg'', pr_args = mp3_args ''/rec/a.ogg'' ''160k'',
       pr_on_exit = ConverterExit ''/rec/a.ogg'' ''/rec/a.mp3'' ''/rec/a.sdp'',
       pr_killed = False, pr_exited = False\<rparr>]"
  by (simp add: disk_def no_state_def cfg_mp3_def has_data_def exit_ok_def ffmpeg_exit_def
      convertOggToMp3_def spawn_def console_log_def mp3_name_def ends_with_ogg_def Let_def)

text \<open>
  C4, amended: the recorder's termination is classified usable exactly when the exit
  code is 0 or 255, or the signal is SIGINT, or the output file is larger than 8192
  bytes; in every other case it is unusable. A usable capture starts an enabled
  post-conversion (the converter is spawned); an unusable one spawns nothing and the
  handler removes the descriptor at once.
\<close>

theorem C4_amended:
  "(exit_ok code signal (has_data s outFile) \<longleftrightarrow>
      code = Some 0 \<or> code = Some 255 \<or> signal = Some ''SIGINT'' \<or>
      (\<exists>d. files s outFile = Some d \<and> 8192 < st_size d)) \<and>
   (POST_CONVERT_MP3 cfg \<and> exit_ok code signal (has_data s outFile) \<longrightarrow>
      procs (ffmpeg_exit cfg True outFile sdp code signal s) =
        procs s @ [\<lparr>pr_command = ''ffmpeg'', pr_args = mp3_args outFile (RECORD_BITRATE cfg),
            pr_on_exit = ConverterExit outFile (mp3_name outFile) sdp,
            pr_killed = False, pr_exited = False\<rparr>]) \<and>
   (\<not> exit_ok code signal (has_data s outFile) \<longrightarrow>
      procs (ffmpeg_exit cfg sp outFile sdp code signal s) = procs s \<and>
      files (ffmpeg_exit cfg sp outFile sdp code signal s) sdp = None)"
proof -
  have a: "exit_ok code signal (has_data s outFile) \<longleftrightarrow>
      code = Some 0 \<or> code = Some 255 \<or> signal = Some ''SIGINT'' \<or>
      (\<exists>d. files s outFile = Some d \<and> 8192 < st_size d)"
    by (rule exit_ok_iff)
  have b: "POST_CONVERT_MP3 cfg \<and> exit_ok code signal (has_data s outFile) \<longrightarrow>
      procs (ffmpeg_exit cfg True outFile sdp code signal s) =
        procs s @ [\<lparr>pr_command = ''ffmpeg'', pr_args = mp3_args outFile (RECORD_BITRATE cfg),
            pr_on_exit = ConverterExit outFile (mp3_name outFile) sdp,
            pr_killed = False, pr_exited = False\<rparr>]"
    by (simp add: ffmpeg_exit_convert)
  have c: "\<not> exit_ok code signal (has_data s outFile) \<longrightarrow>
      procs (ffmpeg_exit cfg sp outFile sdp code signal s) = procs s \<and>
      files (ffmpeg_exit cfg sp outFile sdp code signal s) sdp = None"
    by (simp add: ffmpeg_exit_skip files_try_unlink)
  from a b c show ?thesis by blast
qed

theorem C4_amended_witness:
  "exit_ok (Some 255) None (has_data (disk ''/rec/a'' 100) ''/rec/a.ogg'') \<and>
   procs (ffmpeg_exit cfg_mp3 True ''/rec/a.ogg'' ''/rec/a.sdp'' (Some 255) None (disk ''/rec/a'' 100)) =
     [\<lparr>pr_command = ''ffmpeg'', pr_args = mp3_args ''/rec/a.ogg'' ''160k'',
       pr_on_exit = ConverterExit ''/rec/a.ogg'' ''/rec/a.mp3'' ''/rec/a.sdp'',
       pr_killed = False, pr_exited = False\<rparr>] \<and>
   \<not> exit_ok (Some 1) None (has_data (disk ''/rec/a'' 100) ''/rec/a.ogg'') \<and>
   procs (ffmpeg_exit cfg_mp3 True ''/rec/a.ogg'' ''/rec/a.sdp'' (Some 1) None (disk ''/rec/a'' 100)) = [] \<and>
   files (ffmpeg_exit cfg_mp3 True ''/rec/a.ogg'' ''/rec/a.sdp'' (Some 1) None (disk ''/rec/a'' 100))
     ''/rec/a.sdp'' = None"
proof -
  have f: "files (disk ''/rec/a'' 100) ''/rec/a.ogg'' = Some (Blob 100)"
    "procs (disk ''/rec/a'' 100) = []"
    using disk_files(1,4) [of "''/rec/a''" 100] by simp_all
  have m: "mp3_name ''/rec/a.ogg'' = ''/rec/a.mp3''"
    using mp3_name_ogg [of "''/rec/a''"] by simp
  have e: "POST_CONVERT_MP3 cfg_mp3" "RECORD_BITRATE cfg_mp3 = ''160k''"
    by (simp_all add: cfg_mp3_def)
  have good: "exit_ok (Some 255) None (has_data (disk ''/rec/a'' 100) ''/rec/a.ogg'') \<and>
     procs (ffmpeg_exit cfg_mp3 True ''/rec/a.ogg'' ''/rec/a.sdp'' (Some 255) None (disk ''/rec/a'' 100)) =
     [\<lparr>pr_command = ''ffmpeg'', pr_args = mp3_args ''/rec/a.ogg'' ''160k'',
       pr_on_exit = ConverterExit ''/rec/a.ogg'' ''/rec/a.mp3'' ''/rec/a.sdp'',
       pr_killed = False, pr_exited = False\<rparr>]"
    using C4_amended [of "Some 255" None "disk ''/rec/a'' 100" "''/rec/a.ogg''" cfg_mp3
        "''/rec/a.sdp''" True] f m e
    by simp
  have bad: "\<not> exit_ok (Some 1) None (has_data (disk ''/rec/a'' 100) ''/rec/a.ogg'') \<and>
     procs (ffmpeg_exit cfg_mp3 True ''/rec/a.ogg'' ''/rec/a.sdp'' (Some 1) None (disk ''/rec/a'' 100)) = [] \<and>
     files (ffmpeg_exit cfg_mp3 True ''/rec/a.ogg'' ''/rec/a.sdp'' (Some 1) None (disk ''/rec/a'' 100))
       ''/rec/a.sdp'' = None"
    using C4_amended [of "Some 1" None "disk ''/rec/a'' 100" "''/rec/a.ogg''" cfg_mp3
        "''/rec/a.sdp''" True] f
    by simp
  from good bad show ?thesis by blast
qed

text \<open>
  C5 (Scenario B), as the specification states it: when the capability check fails, no
  transport, no consumer and no file is created. The relay transport is created and
  connected before \<^verbatim>\<open>canConsume\<close> is asked; here the check fails and one transport
  has been created, connected and closed.
\<close>

theorem C5_counterexample:
  "\<not> can_consume env_no_consume \<and>
   plain_transports (startRecordingForProducer cfg_ogg env_no_consume (mk_producer ''P2'') no_state) =
     [\<lparr>tr_port = Some 40001, tr_closed = True\<rparr>] \<and>
   trace (startRecordingForProducer cfg_ogg env_no_consume (mk_producer ''P2'') no_state) =
     [CreateTransport 0, ConnectTransport 0 40001, CloseTransport 0]"
proof -
  have e: "port_res env_no_consume = Some 40001" "create_ok env_no_consume"
    "connect_ok env_no_consume" "\<not> can_consume env_no_consume" "close_ok env_no_consume"
    by (simp_all add: env_no_consume_def env_ok_def)
  show ?thesis
    using e by (simp add: start_cannot_consume [OF e(1-4)] no_state_def)
qed

text \<open>
  C5, amended: when the capability check is reached and fails, the relay transport that
  was created and connected before the check is closed again (if
  \<^verbatim>\<open>close\<close> does not throw), and nothing else is allocated: no consumer, no file,
  no process, and neither the registry nor the close listeners change.
\<close>

theorem C5_amended:
  assumes "port_res env = Some rtpPort" "create_ok env" "connect_ok env" "\<not> can_consume env"
  shows "plain_transports (startRecordingForProducer cfg env p s) =
           plain_transports s @ [\<lparr>tr_port = Some rtpPort, tr_closed = close_ok env\<rparr>] \<and>
         consumers (startRecordingForProducer cfg env p s) = consumers s \<and>
         files (startRecordingForProducer cfg env p s) = files s \<and>
         procs (startRecordingForProducer cfg env p s) = procs s \<and>
         recordings (startRecordingForProducer cfg env p s) = recordings s \<and>
         listeners (startRecordingForProducer cfg env p s) = listeners s \<and>
         trace (startRecordingForProducer cfg env p s) = trace s @
           [CreateTransport (length (plain_transports s)),
            ConnectTransport (length (plain_transports s)) rtpPort] @
           (if close_ok env then [CloseTransport (length (plain_transports s))] else [])"
  using assms by (simp add: start_cannot_consume)

theorem C5_amended_witness:
  "plain_transports (startRecordingForProducer cfg_ogg env_no_consume (mk_producer ''P2'') no_state) =
     [\<lparr>tr_port = Some 40001, tr_closed = True\<rparr>] \<and>
   consumers (startRecordingForProducer cfg_ogg env_no_consume (mk_producer ''P2'') no_state) = [] \<and>
   files (startRecordingForProducer cfg_ogg env_no_consume (mk_producer ''P2'') no_state) = Map.empty \<and>
   procs (startRecordingForProducer cfg_ogg env_no_consume (mk_producer ''P2'') no_state) = [] \<and>
   recordings (startRecordingForProducer cfg_ogg env_no_consume (mk_producer ''P2'') no_state) = Map.empty"
proof -
  have e: "port_res env_no_consume = Some 40001" "create_ok env_no_consume"
    "connect_ok env_no_consume" "\<not> can_consume env_no_consume" "close_ok env_no_consume"
    by (simp_all add: env_no_consume_def env_ok_def)
  show ?thesis
    using C5_amended [OF e(1-4), of cfg_ogg "mk_producer ''P2''" no_state] e(5)
    by (simp add: no_state_def)
qed




text \<open>
  C7, as the specification states it: with post-conversion enabled, a usable exit and a
  raw file above the threshold, a derived artifact is produced and the raw artifact is
  removed unless keep-raw is set. The code removes the raw file only when the converter
  exits with code 0. Here the recorder exits with code 0 and 51200 bytes, keep-raw is
  off, and the converter exits with code 1 without output: no derived artifact exists
  and the raw file is still there.
\<close>

theorem C7_counterexample:
  "POST_CONVERT_MP3 cfg_mp3 \<and> \<not> KEEP_OGG cfg_mp3 \<and>
   has_data (disk ''/rec/a'' 51200) ''/rec/a.ogg'' \<and>
   exit_ok (Some 0) None (has_data (disk ''/rec/a'' 51200) ''/rec/a.ogg'') \<and>
   files (mp3_exit cfg_mp3 ''/rec/a.ogg'' ''/rec/a.mp3'' ''/rec/a.sdp'' (Some 1)
            (ffmpeg_exit cfg_mp3 True ''/rec/a.ogg'' ''/rec/a.sdp'' (Some 0) None
               (disk ''/rec/a'' 51200))) ''/rec/a.mp3'' = None \<and>
   files (mp3_exit cfg_mp3 ''/rec/a.ogg'' ''/rec/a.mp3'' ''/rec/a.sdp'' (Some 1)
            (ffmpeg_exit cfg_mp3 True ''/rec/a.ogg'' ''/rec/a.sdp'' (Some 0) None
               (disk ''/rec/a'' 51200))) ''/rec/a.ogg'' = Some (Blob 51200)"
  by (simp add: disk_def no_state_def cfg_mp3_def has_data_def exit_ok_def ffmpeg_exit_def
      convertOggToMp3_def spawn_def mp3_exit_def try_catch_def unlinkSync_def
      console_log_def Let_def)

text \<open>
  C7, amended: with post-conversion enabled and a raw file above the threshold (which
  makes the exit usable), the converter is spawned on the raw file with the configured
  bitrate. If it exits with code 0, the derived artifact it wrote is kept and the raw
  artifact is removed unless keep-raw is set; if it exits with any other code, the raw
  artifact is retained.
\<close>

theorem C7_amended:
  assumes "POST_CONVERT_MP3 cfg"
      and "files s (b @ ''.ogg'') = Some d" "8192 < st_size d"
  shows "exit_ok code signal (has_data s (b @ ''.ogg'')) \<and>
         procs (ffmpeg_exit cfg True (b @ ''.ogg'') (b @ ''.sdp'') code signal s) =
           procs s @ [\<lparr>pr_command = ''ffmpeg'',
                       pr_args = [''-hide_banner'', ''-loglevel'', ''warning'', ''-i'', b @ ''.ogg'',
                                  ''-vn'', ''-c:a'', ''libmp3lame'', ''-b:a'', RECORD_BITRATE cfg,
                                  ''-ar'', ''44100'', ''-ac'', ''2'', b @ ''.mp3''],
                       pr_on_exit = ConverterExit (b @ ''.ogg'') (b @ ''.mp3'') (b @ ''.sdp''),
                       pr_killed = False, pr_exited = False\<rparr>] \<and>
         (files s2 (b @ ''.ogg'') = Some d \<and> files s2 (b @ ''.mp3'') = Some m \<longrightarrow>
            files (mp3_exit cfg (b @ ''.ogg'') (b @ ''.mp3'') (b @ ''.sdp'') (Some 0) s2) (b @ ''.mp3'') = Some m \<and>
            files (mp3_exit cfg (b @ ''.ogg'') (b @ ''.mp3'') (b @ ''.sdp'') (Some 0) s2) (b @ ''.ogg'') =
              (if KEEP_OGG cfg then Some d else None)) \<and>
         (files s2 (b @ ''.ogg'') = Some d \<and> code2 \<noteq> Some 0 \<longrightarrow>
            files (mp3_exit cfg (b @ ''.ogg'') (b @ ''.mp3'') (b @ ''.sdp'') code2 s2) (b @ ''.ogg'') = Some d)"
proof -
  have ok: "exit_ok code signal (has_data s (b @ ''.ogg''))"
    using assms by (simp add: exit_ok_def has_data_def)
  have sp: "procs (ffmpeg_exit cfg True (b @ ''.ogg'') (b @ ''.sdp'') code signal s) =
           procs s @ [\<lparr>pr_command = ''ffmpeg'',
                       pr_args = [''-hide_banner'', ''-loglevel'', ''warning'', ''-i'', b @ ''.ogg'',
                                  ''-vn'', ''-c:a'', ''libmp3lame'', ''-b:a'', RECORD_BITRATE cfg,
                                  ''-ar'', ''44100'', ''-ac'', ''2'', b @ ''.mp3''],
                       pr_on_exit = ConverterExit (b @ ''.ogg'') (b @ ''.mp3'') (b @ ''.sdp''),
                       pr_killed = False, pr_exited = False\<rparr>]"
    using assms(1) ok by (simp add: ffmpeg_exit_convert mp3_name_ogg mp3_args_def)
  have good: "files s2 (b @ ''.ogg'') = Some d \<and> files s2 (b @ ''.mp3'') = Some m \<longrightarrow>
            files (mp3_exit cfg (b @ ''.ogg'') (b @ ''.mp3'') (b @ ''.sdp'') (Some 0) s2) (b @ ''.mp3'') = Some m \<and>
            files (mp3_exit cfg (b @ ''.ogg'') (b @ ''.mp3'') (b @ ''.sdp'') (Some 0) s2) (b @ ''.ogg'') =
              (if KEEP_OGG cfg then Some d else None)"
    by (simp add: files_mp3_exit)
  have bad: "files s2 (b @ ''.ogg'') = Some d \<and> code2 \<noteq> Some 0 \<longrightarrow>
            files (mp3_exit cfg (b @ ''.ogg'') (b @ ''.mp3'') (b @ ''.sdp'') code2 s2) (b @ ''.ogg'') = Some d"
    by (simp add: files_mp3_exit)
  from ok sp good bad show ?thesis by blast
qed

theorem C7_amended_witness:
  "pr_args (procs (ffmpeg_exit cfg_mp3 True ''/rec/a.ogg'' ''/rec/a.sdp'' (Some 0) None
                     (disk ''/rec/a'' 51200)) ! 0) =
     [''-hide_banner'', ''-loglevel'', ''warning'', ''-i'', ''/rec/a.ogg'', ''-vn'',
      ''-c:a'', ''libmp3lame'', ''-b:a'', ''160k'', ''-ar'', ''44100'', ''-ac'', ''2'',
      ''/rec/a.mp3''] \<and>
   files (mp3_exit cfg_mp3 ''/rec/a.ogg'' ''/rec/a.mp3'' ''/rec/a.sdp'' (Some 0)
            (tool_writes ''/rec/a.mp3'' 7000 (disk ''/rec/a'' 51200))) ''/rec/a.mp3'' =
     Some (Blob 7000) \<and>
   files (mp3_exit cfg_mp3 ''/rec/a.ogg'' ''/rec/a.mp3'' ''/rec/a.sdp'' (Some 0)
            (tool_writes ''/rec/a.mp3'' 7000 (disk ''/rec/a'' 51200))) ''/rec/a.ogg'' = None"
proof -
  have e: "POST_CONVERT_MP3 cfg_mp3"
    by (simp add: cfg_mp3_def)
  have f: "files (disk ''/rec/a'' 51200) (''/rec/a'' @ ''.ogg'') = Some (Blob 51200)"
    by (rule disk_files(1))
  have z: "8192 < st_size (Blob 51200)"
    by simp
  have w: "files (tool_writes ''/rec/a.mp3'' 7000 (disk ''/rec/a'' 51200)) (''/rec/a'' @ ''.ogg'') =
             Some (Blob 51200) \<and>
           files (tool_writes ''/rec/a.mp3'' 7000 (disk ''/rec/a'' 51200)) (''/rec/a'' @ ''.mp3'') =
             Some (Blob 7000)"
    by (simp add: tool_writes_def disk_def no_state_def)
  show ?thesis
    using C7_amended [OF e f z, of "Some 0" None
        "tool_writes ''/rec/a.mp3'' 7000 (disk ''/rec/a'' 51200)" "Blob 7000" "Some 0"] w
    by (simp add: cfg_mp3_def disk_def no_state_def)
qed



text \<open>
  C9: stopping a producer that has no session in the registry returns without raising
  and changes nothing, and so does a close signal for it. Whatever the state, a stop
  returns without raising, and any further stop or close signal for that producer is a
  no-op. For a producer whose close listener is attached, a close signal is one stop:
  a second signal changes nothing, so a session with a running recorder has its
  consumer closed once, its transport closed once and its recorder signalled once.
\<close>

theorem C9_stop_idempotent:
  "(recordings s producerId = None \<longrightarrow>
      stopRecordingForProducer env producerId s = Inr s \<and> emit env producerId event s = Inr s) \<and>
   (\<exists>s1. stopRecordingForProducer env producerId s = Inr s1 \<and>
         stopRecordingForProducer env2 producerId s1 = Inr s1 \<and>
         emit env2 producerId event2 s1 = Inr s1) \<and>
   ((producerId, event) \<in> set (listeners s) \<longrightarrow>
      (\<exists>s1. emit env producerId event s = Inr s1 \<and>
            emit env2 producerId event2 s1 = Inr s1 \<and>
            stopRecordingForProducer env2 producerId s1 = Inr s1 \<and>
            (\<forall>r. recordings s producerId = Some r \<and>
                 \<not> pr_killed (procs s ! ffmpeg r) \<and> \<not> pr_exited (procs s ! ffmpeg r) \<and>
                 consumer_close_ok env \<and> transport_close_ok env \<and> kill_ok env \<longrightarrow>
                 trace s1 = trace s @
                   [CloseConsumer (consumer r), CloseTransport (transport r),
                    Kill (ffmpeg r) ''SIGINT''])))"
proof -
  obtain s1 where s1: "stopRecordingForProducer env producerId s = Inr s1"
    "recordings s1 producerId = None"
    using stop_returns by blast
  have noop: "stopRecordingForProducer env2 producerId s1 = Inr s1"
    "emit env2 producerId event2 s1 = Inr s1"
    using s1(2) by (simp_all add: stop_absent emit_def run_listeners_absent)
  have a: "recordings s producerId = None \<longrightarrow>
      stopRecordingForProducer env producerId s = Inr s \<and> emit env producerId event s = Inr s"
    by (simp add: stop_absent emit_def run_listeners_absent)
  have b: "\<exists>s1. stopRecordingForProducer env producerId s = Inr s1 \<and>
         stopRecordingForProducer env2 producerId s1 = Inr s1 \<and>
         emit env2 producerId event2 s1 = Inr s1"
    using s1 noop by blast
  have c: "(producerId, event) \<in> set (listeners s) \<longrightarrow>
      (\<exists>s1. emit env producerId event s = Inr s1 \<and>
            emit env2 producerId event2 s1 = Inr s1 \<and>
            stopRecordingForProducer env2 producerId s1 = Inr s1 \<and>
            (\<forall>r. recordings s producerId = Some r \<and>
                 \<not> pr_killed (procs s ! ffmpeg r) \<and> \<not> pr_exited (procs s ! ffmpeg r) \<and>
                 consumer_close_ok env \<and> transport_close_ok env \<and> kill_ok env \<longrightarrow>
                 trace s1 = trace s @
                   [CloseConsumer (consumer r), CloseTransport (transport r),
                    Kill (ffmpeg r) ''SIGINT'']))"
  proof
    assume "(producerId, event) \<in> set (listeners s)"
    then have "emit env producerId event s = Inr s1"
      using s1(1) by (simp add: emit_def run_listeners_present)
    moreover have "\<forall>r. recordings s producerId = Some r \<and>
                 \<not> pr_killed (procs s ! ffmpeg r) \<and> \<not> pr_exited (procs s ! ffmpeg r) \<and>
                 consumer_close_ok env \<and> transport_close_ok env \<and> kill_ok env \<longrightarrow>
                 trace s1 = trace s @
                   [CloseConsumer (consumer r), CloseTransport (transport r),
                    Kill (ffmpeg r) ''SIGINT'']"
      using s1(1) stop_trace_running by blast
    ultimately show "\<exists>s1. emit env producerId event s = Inr s1 \<and>
            emit env2 producerId event2 s1 = Inr s1 \<and>
            stopRecordingForProducer env2 producerId s1 = Inr s1 \<and>
            (\<forall>r. recordings s producerId = Some r \<and>
                 \<not> pr_killed (procs s ! ffmpeg r) \<and> \<not> pr_exited (procs s ! ffmpeg r) \<and>
                 consumer_close_ok env \<and> transport_close_ok env \<and> kill_ok env \<longrightarrow>
                 trace s1 = trace s @
                   [CloseConsumer (consumer r), CloseTransport (transport r),
                    Kill (ffmpeg r) ''SIGINT''])"
      using noop by blast
  qed
  from a b c show ?thesis by blast
qed

theorem C9_stop_idempotent_witness:
  "recordings no_state ''P1'' = None \<and>
   stopRecordingForProducer stop_ok ''P1'' no_state = Inr no_state \<and>
   (''P1'', ''transportclose'') \<in> set (listeners live) \<and>
   (\<exists>s1. emit stop_ok ''P1'' ''transportclose'' live = Inr s1 \<and>
         emit stop_ok ''P1'' ''producerclose'' s1 = Inr s1 \<and>
         trace s1 = trace live @ [CloseConsumer 0, CloseTransport 0, Kill 0 ''SIGINT''])"
proof -
  have n: "recordings no_state ''P1'' = None"
    by (simp add: no_state_def)
  have l: "(''P1'', ''transportclose'') \<in> set (listeners live)"
    by (simp add: live_state)
  have r: "recordings live ''P1'' = Some \<lparr>ffmpeg = 0, consumer = 0, transport = 0,
                       file_out = ''/rec/t_peer-a_prod-P1.ogg'',
                       sdpFile = ''/rec/t_peer-a_prod-P1.sdp''\<rparr> \<and>
       \<not> pr_killed (procs live ! 0) \<and> \<not> pr_exited (procs live ! 0) \<and>
       consumer_close_ok stop_ok \<and> transport_close_ok stop_ok \<and> kill_ok stop_ok"
    by (simp add: live_state stop_ok_def)
  have a: "stopRecordingForProducer stop_ok ''P1'' no_state = Inr no_state"
    using C9_stop_idempotent [of no_state "''P1''" stop_ok "''transportclose''" stop_ok "''producerclose''"] n
    by blast
  have b: "\<exists>s1. emit stop_ok ''P1'' ''transportclose'' live = Inr s1 \<and>
         emit stop_ok ''P1'' ''producerclose'' s1 = Inr s1 \<and>
         trace s1 = trace live @ [CloseConsumer 0, CloseTransport 0, Kill 0 ''SIGINT'']"
    using C9_stop_idempotent [of live "''P1''" stop_ok "''transportclose''" stop_ok "''producerclose''"] l r
    by fastforce
  from n a l b show ?thesis by blast
qed

text \<open>
  C10: let a start call for producer \<open>p\<close>, which has no session in the registry, spawn
  the recorder and suspend at the timer (state \<open>w1\<close>); the next step, when the timer
  has fired, issues the resume and suspends again. In both states the registry and the
  close listeners are what they were before the spawn, so the session is not in the
  registry, the listing shows no recording file for the producer, and a stop request or
  a close signal for the producer returns the state unchanged: the consumer is not
  closed and the recorder is neither signalled nor exited. Only the step after the
  resume has resolved stores the session and attaches the listeners.
\<close>

theorem C10_window:
  assumes spawned: "start_step cfg env (AwaitConsume p rtpPort t) s = (AwaitSettle p r, w1)"
      and fresh: "recordings s (prod_id p) = None"
  shows "fst (start_step cfg env (AwaitSettle p r) w1) = AwaitResume p r \<and>
         recordings w1 = recordings s \<and> listeners w1 = listeners s \<and>
         recordings (snd (start_step cfg env (AwaitSettle p r) w1)) = recordings s \<and>
         listeners (snd (start_step cfg env (AwaitSettle p r) w1)) = listeners s \<and>
         stopRecordingForProducer senv (prod_id p) w1 = Inr w1 \<and>
         emit senv (prod_id p) event w1 = Inr w1 \<and>
         recordingFile w1 (prod_id p) = None \<and>
         map l_recordingFile (list_producers [p] w1) = [None] \<and>
         stopRecordingForProducer senv (prod_id p) (snd (start_step cfg env (AwaitSettle p r) w1)) =
           Inr (snd (start_step cfg env (AwaitSettle p r) w1)) \<and>
         emit senv (prod_id p) event (snd (start_step cfg env (AwaitSettle p r) w1)) =
           Inr (snd (start_step cfg env (AwaitSettle p r) w1)) \<and>
         recordingFile (snd (start_step cfg env (AwaitSettle p r) w1)) (prod_id p) = None \<and>
         \<not> cn_closed (consumers w1 ! consumer r) \<and>
         \<not> pr_killed (procs w1 ! ffmpeg r) \<and> \<not> pr_exited (procs w1 ! ffmpeg r) \<and>
         (resume_ok env \<longrightarrow>
            recordings (snd (start_step cfg env (AwaitResume p r)
                         (snd (start_step cfg env (AwaitSettle p r) w1)))) (prod_id p) = Some r \<and>
            listeners (snd (start_step cfg env (AwaitResume p r)
                         (snd (start_step cfg env (AwaitSettle p r) w1)))) =
              listeners s @ [(prod_id p, ''transportclose''), (prod_id p, ''producerclose'')])"
proof -
  let ?w2 = "snd (start_step cfg env (AwaitSettle p r) w1)"
  note sp = spawn_step_result [OF spawned]
  have r1: "recordings w1 (prod_id p) = None"
    using sp fresh by simp
  have r2: "recordings ?w2 (prod_id p) = None" "recordings ?w2 = recordings s"
    "listeners ?w2 = listeners s"
    using sp fresh by simp_all
  have n1: "stopRecordingForProducer senv (prod_id p) w1 = Inr w1 \<and>
         emit senv (prod_id p) event w1 = Inr w1 \<and> recordingFile w1 (prod_id p) = None"
    using r1 by (rule window_noop)
  have n2: "stopRecordingForProducer senv (prod_id p) ?w2 = Inr ?w2 \<and>
         emit senv (prod_id p) event ?w2 = Inr ?w2 \<and> recordingFile ?w2 (prod_id p) = None"
    using r2(1) by (rule window_noop)
  have e: "resume_ok env \<longrightarrow>
            recordings (snd (start_step cfg env (AwaitResume p r) ?w2)) (prod_id p) = Some r \<and>
            listeners (snd (start_step cfg env (AwaitResume p r) ?w2)) =
              listeners s @ [(prod_id p, ''transportclose''), (prod_id p, ''producerclose'')]"
    using sp by simp
  have f: "fst (start_step cfg env (AwaitSettle p r) w1) = AwaitResume p r"
    by simp
  have regs: "recordings w1 = recordings s" "listeners w1 = listeners s"
    using sp by blast+
  have alive: "\<not> cn_closed (consumers w1 ! consumer r)"
    "\<not> pr_killed (procs w1 ! ffmpeg r)" "\<not> pr_exited (procs w1 ! ffmpeg r)"
    using sp by blast+
  have ls: "map l_recordingFile (list_producers [p] w1) = [None]"
    using n1 by (simp add: list_producers_def)
  from f regs r2(2,3) n1 n2 ls alive e show ?thesis
    by (simp del: start_step.simps)
qed

theorem C10_window_witness:
  "start_step cfg_ogg (env_ok ''t'') (AwaitConsume (mk_producer ''P1'') 40001 0) connected =
     (AwaitSettle (mk_producer ''P1'')
        \<lparr>ffmpeg = 0, consumer = 0, transport = 0,
         file_out = ''/rec/t_peer-a_prod-P1.ogg'', sdpFile = ''/rec/t_peer-a_prod-P1.sdp''\<rparr>,
      window) \<and>
   recordings connected ''P1'' = None \<and>
   recordings window ''P1'' = None \<and>
   stopRecordingForProducer stop_ok ''P1'' window = Inr window \<and>
   emit stop_ok ''P1'' ''producerclose'' window = Inr window \<and>
   recordingFile window ''P1'' = None \<and>
   \<not> pr_killed (procs window ! 0) \<and> \<not> pr_exited (procs window ! 0) \<and>
   \<not> cn_closed (consumers window ! 0)"
proof -
  have f: "recordings connected (prod_id (mk_producer ''P1'')) = None"
    by (simp add: connected_state no_state_def)
  have p: "prod_id (mk_producer ''P1'') = ''P1''"
    by (simp add: mk_producer_def)
  show ?thesis
    using C10_window [OF window_step f, of stop_ok "''producerclose''"] f window_step
    by (simp add: p del: start_step.simps)
qed

end
